theory Spec2Isabelle
  imports Complex_Main "HOL-Library.Sublist"
begin

section \<open>JavaScript values, requests and responses\<close>

text \<open>
  The values that travel through the route handlers: the members of a parsed JSON body,
  the bind parameters handed to \<^verbatim>\<open>pool.query\<close> and the cells of a result row.
  \<open>Undefined\<close> is what reading a missing member yields. Numbers are IEEE doubles in
  the source; every finite double is a rational, and the handlers only copy and compare
  them, so a number is carried as the rational it denotes. Array- and object-valued body
  members are outside this value type.
\<close>

datatype jsval = Undefined | Null | Bool bool | Num rat | Str string

type_synonym row = "(string \<times> jsval) list"

text \<open>\<^verbatim>\<open>obj[field]\<close> and \<^verbatim>\<open>obj.field\<close>.\<close>

definition member :: "row \<Rightarrow> string \<Rightarrow> jsval" where
  "member obj f = (case map_of obj f of None \<Rightarrow> Undefined | Some v \<Rightarrow> v)"

text \<open>The condition of \<^verbatim>\<open>v ? a : b\<close>.\<close>

fun truthy :: "jsval \<Rightarrow> bool" where
  "truthy Undefined = False"
| "truthy Null = False"
| "truthy (Bool b) = b"
| "truthy (Num q) = (q \<noteq> 0)"
| "truthy (Str s) = (s \<noteq> [])"

text \<open>\<^verbatim>\<open>a ?? b\<close>.\<close>

definition nullish :: "jsval \<Rightarrow> jsval \<Rightarrow> jsval" where
  "nullish a b = (if a = Undefined \<or> a = Null then b else a)"

text \<open>
  \<^verbatim>\<open>req.params.id\<close> is the path segment, a string; \<^verbatim>\<open>req.body\<close> is the object
  produced by the JSON body parser.
\<close>

record request =
  params_id :: string
  body :: row

text \<open>
  The envelope \<^verbatim>\<open>{ ok, message, data }\<close> with its status code. \<open>NoData\<close> stands for
  an envelope without a \<^verbatim>\<open>data\<close> member: either the handler wrote none, or it wrote
  \<^verbatim>\<open>data: undefined\<close>, which JSON serialisation drops.
\<close>

datatype payload = NoData | Single row | Many "row list"

record response =
  status :: nat
  ok :: bool
  message :: string
  data :: payload

text \<open>\<^verbatim>\<open>res.status(n).json({ ok, message, data })\<close>; \<^verbatim>\<open>res.json\<close> alone answers 200.\<close>

definition json :: "nat \<Rightarrow> bool \<Rightarrow> string \<Rightarrow> payload \<Rightarrow> response" where
  "json n b m d = \<lparr>status = n, ok = b, message = m, data = d\<rparr>"

text \<open>\<^verbatim>\<open>data: rows[0]\<close>: the first row, or \<^verbatim>\<open>undefined\<close> when the array is empty.\<close>

definition first_row :: "row list \<Rightarrow> payload" where
  "first_row rs = (case rs of [] \<Rightarrow> NoData | r # _ \<Rightarrow> Single r)"

section \<open>The four resources and their messages\<close>

datatype resource = Categorias | Productos | Ingredientes | ProductoIngrediente

text \<open>The accented letters of the Spanish messages, as their UTF-8 bytes.\<close>

definition i_acute :: string where
  "i_acute = [CHR 0xC3, CHR 0xAD]"

definition o_acute :: string where
  "o_acute = [CHR 0xC3, CHR 0xB3]"

definition consulta_ok :: string where
  "consulta_ok = ''Consulta realizada correctamente''"

definition nada :: string where
  "nada = ''Nada para actualizar''"

fun no_encontrado :: "resource \<Rightarrow> string" where
  "no_encontrado Categorias = ''Categor'' @ i_acute @ ''a no encontrada''"
| "no_encontrado Productos = ''Producto no encontrado''"
| "no_encontrado Ingredientes = ''Ingrediente no encontrado''"
| "no_encontrado ProductoIngrediente = ''Relaci'' @ o_acute @ ''n no encontrada''"

fun creado :: "resource \<Rightarrow> string" where
  "creado Categorias = ''Categor'' @ i_acute @ ''a creada''"
| "creado Productos = ''Producto creado''"
| "creado Ingredientes = ''Ingrediente creado''"
| "creado ProductoIngrediente = ''Relaci'' @ o_acute @ ''n creada''"

fun actualizado :: "resource \<Rightarrow> string" where
  "actualizado Categorias = ''Categor'' @ i_acute @ ''a actualizada''"
| "actualizado Productos = ''Producto actualizado''"
| "actualizado Ingredientes = ''Ingrediente actualizado''"
| "actualizado ProductoIngrediente = ''Relaci'' @ o_acute @ ''n actualizada''"

fun eliminado :: "resource \<Rightarrow> string" where
  "eliminado Categorias = ''Categor'' @ i_acute @ ''a eliminada''"
| "eliminado Productos = ''Producto eliminado''"
| "eliminado Ingredientes = ''Ingrediente eliminado''"
| "eliminado ProductoIngrediente = ''Relaci'' @ o_acute @ ''n eliminada''"

text \<open>The 500 messages: \<^verbatim>\<open>'Error listando categor\<close>...\<^verbatim>\<open>'\<close> and its siblings.\<close>

fun plural :: "resource \<Rightarrow> string" where
  "plural Categorias = ''categor'' @ i_acute @ ''as''"
| "plural Productos = ''productos''"
| "plural Ingredientes = ''ingredientes''"
| "plural ProductoIngrediente = ''relaciones''"

fun singular :: "resource \<Rightarrow> string" where
  "singular Categorias = ''categor'' @ i_acute @ ''a''"
| "singular Productos = ''producto''"
| "singular Ingredientes = ''ingrediente''"
| "singular ProductoIngrediente = ''relaci'' @ o_acute @ ''n''"

definition error_listando :: "resource \<Rightarrow> string" where
  "error_listando r = ''Error listando '' @ plural r"

definition error_obteniendo :: "resource \<Rightarrow> string" where
  "error_obteniendo r = ''Error obteniendo '' @ singular r"

definition error_insertando :: "resource \<Rightarrow> string" where
  "error_insertando r = ''Error insertando '' @ singular r"

definition error_actualizando :: "resource \<Rightarrow> string" where
  "error_actualizando r = ''Error actualizando '' @ singular r"

definition error_eliminando :: "resource \<Rightarrow> string" where
  "error_eliminando r = ''Error eliminando '' @ singular r"

section \<open>The statements handed to the query executor\<close>

text \<open>
  Each constructor is one statement template of the route modules, per table. The only
  template with a hole is the UPDATE, whose hole is filled with \<^verbatim>\<open>sets.join(', ')\<close>;
  the constructor keeps the \<^verbatim>\<open>sets\<close> array itself. \<open>sql_text\<close> is the text that
  reaches the driver, with every run of white space of the template written as one blank
  and the white space at its two ends left out.
\<close>

datatype sql =
    SELECT_ALL resource
  | SELECT_BY_ID resource
  | INSERT_INTO resource
  | UPDATE_SET resource "string list"
  | DELETE_FROM resource

fun table_name :: "resource \<Rightarrow> string" where
  "table_name Categorias = ''categorias''"
| "table_name Productos = ''productos''"
| "table_name Ingredientes = ''ingredientes''"
| "table_name ProductoIngrediente = ''producto_ingrediente''"

text \<open>The SELECT list and FROM clause shared by List and Get-by-id of a resource.\<close>

fun projection :: "resource \<Rightarrow> string" where
  "projection Categorias = ''SELECT id, nombre, created_at, updated_at FROM categorias''"
| "projection Productos =
     ''SELECT p.id, p.categoria_id, c.nombre AS categoria, '' @
     ''p.nombre, p.descripcion, p.precio, p.disponible, '' @
     ''p.created_at, p.updated_at '' @
     ''FROM productos p '' @
     ''JOIN categorias c ON p.categoria_id = c.id''"
| "projection Ingredientes =
     ''SELECT id, nombre, perecedero, created_at, updated_at FROM ingredientes''"
| "projection ProductoIngrediente =
     ''SELECT pi.id, pi.producto_id, p.nombre AS producto, '' @
     ''pi.ingrediente_id, i.nombre AS ingrediente, '' @
     ''pi.cantidad_usada, pi.created_at, pi.updated_at '' @
     ''FROM producto_ingrediente pi '' @
     ''JOIN productos p ON pi.producto_id = p.id '' @
     ''JOIN ingredientes i ON pi.ingrediente_id = i.id''"

text \<open>The qualifier of the primary key in the ORDER BY and WHERE clauses of the reads.\<close>

fun key_name :: "resource \<Rightarrow> string" where
  "key_name Categorias = ''id''"
| "key_name Productos = ''p.id''"
| "key_name Ingredientes = ''id''"
| "key_name ProductoIngrediente = ''pi.id''"

fun insert_text :: "resource \<Rightarrow> string" where
  "insert_text Categorias = ''INSERT INTO categorias (nombre) VALUES (?)''"
| "insert_text Productos =
     ''INSERT INTO productos (categoria_id, nombre, descripcion, precio, disponible) '' @
     ''VALUES (?, ?, ?, ?, ?)''"
| "insert_text Ingredientes = ''INSERT INTO ingredientes (nombre, perecedero) VALUES (?, ?)''"
| "insert_text ProductoIngrediente =
     ''INSERT INTO producto_ingrediente (producto_id, ingrediente_id, cantidad_usada) '' @
     ''VALUES (?, ?, ?)''"

text \<open>\<^verbatim>\<open>Array.prototype.join\<close>.\<close>

fun join :: "string \<Rightarrow> string list \<Rightarrow> string" where
  "join sep [] = []"
| "join sep [x] = x"
| "join sep (x # y # ys) = x @ sep @ join sep (y # ys)"

fun sql_text :: "sql \<Rightarrow> string" where
  "sql_text (SELECT_ALL r) = projection r @ '' ORDER BY '' @ key_name r @ '' DESC''"
| "sql_text (SELECT_BY_ID r) = projection r @ '' WHERE '' @ key_name r @ '' = ?''"
| "sql_text (INSERT_INTO r) = insert_text r"
| "sql_text (UPDATE_SET r sets) =
     ''UPDATE '' @ table_name r @ '' SET '' @ join '', '' sets @ '' WHERE id = ?''"
| "sql_text (DELETE_FROM r) = ''DELETE FROM '' @ table_name r @ '' WHERE id = ?''"

section \<open>The external collaborators\<close>

text \<open>
  What the driver resolves \<^verbatim>\<open>pool.query\<close> with: the row array of a SELECT, or the
  result header of a data-modifying statement. The record carries both; a handler reads
  the part its source reads.
\<close>

record qresult =
  rows :: "row list"
  affectedRows :: nat
  insertId :: nat

text \<open>
  \<^verbatim>\<open>getPool\<close> (\<^verbatim>\<open>config/db.js\<close>) and the pool's \<^verbatim>\<open>query\<close> are parameters of every
  handler. \<open>getPool\<close> either yields the pool or rejects; \<open>query\<close> runs a statement
  with its bind parameters against the storage state \<open>'s\<close> and either resolves with a
  result or rejects (\<open>None\<close>). A rejection is what the handlers' \<^verbatim>\<open>catch\<close> sees.
\<close>

record 's env =
  getPool :: bool
  query :: "'s \<Rightarrow> sql \<Rightarrow> jsval list \<Rightarrow> qresult option \<times> 's"

text \<open>
  The state a handler runs in: the storage, and the log of the statements handed to the
  executor so far, each with its bind parameters.
\<close>

record 's conn =
  store :: 's
  issued :: "(sql \<times> jsval list) list"

definition pool_query ::
  "'s env \<Rightarrow> 's conn \<Rightarrow> sql \<Rightarrow> jsval list \<Rightarrow> qresult option \<times> 's conn" where
  "pool_query env c q ps =
     (case query env (store c) q ps of
        (res, s') \<Rightarrow> (res, \<lparr>store = s', issued = issued c @ [(q, ps)]\<rparr>))"

section \<open>The route handlers\<close>

subsection \<open>List, Get-by-id and Delete\<close>

text \<open>
  The handlers of \<^verbatim>\<open>router.get('/')\<close>, \<^verbatim>\<open>router.get('/:id')\<close> and
  \<^verbatim>\<open>router.delete('/:id')\<close> are the same function in the four route modules up to
  the table and the message texts, so each is written once, over the resource. The whole
  body is inside \<^verbatim>\<open>try\<close>: a rejected \<^verbatim>\<open>getPool\<close> or \<^verbatim>\<open>query\<close> ends in the
  \<^verbatim>\<open>catch\<close> branch, which answers 500.
\<close>

definition get_all :: "resource \<Rightarrow> 's env \<Rightarrow> 's conn \<Rightarrow> response \<times> 's conn" where
  "get_all r env c =
     (if \<not> getPool env then (json 500 False (error_listando r) NoData, c)
      else case pool_query env c (SELECT_ALL r) [] of
             (None, c1) \<Rightarrow> (json 500 False (error_listando r) NoData, c1)
           | (Some res, c1) \<Rightarrow> (json 200 True consulta_ok (Many (rows res)), c1))"

definition get_by_id ::
  "resource \<Rightarrow> 's env \<Rightarrow> 's conn \<Rightarrow> request \<Rightarrow> response \<times> 's conn" where
  "get_by_id r env c req =
     (if \<not> getPool env then (json 500 False (error_obteniendo r) NoData, c)
      else case pool_query env c (SELECT_BY_ID r) [Str (params_id req)] of
             (None, c1) \<Rightarrow> (json 500 False (error_obteniendo r) NoData, c1)
           | (Some res, c1) \<Rightarrow>
               if rows res = [] then (json 404 False (no_encontrado r) NoData, c1)
               else (json 200 True consulta_ok (first_row (rows res)), c1))"

definition delete_by_id ::
  "resource \<Rightarrow> 's env \<Rightarrow> 's conn \<Rightarrow> request \<Rightarrow> response \<times> 's conn" where
  "delete_by_id r env c req =
     (if \<not> getPool env then (json 500 False (error_eliminando r) NoData, c)
      else case pool_query env c (DELETE_FROM r) [Str (params_id req)] of
             (None, c1) \<Rightarrow> (json 500 False (error_eliminando r) NoData, c1)
           | (Some result, c1) \<Rightarrow>
               if affectedRows result = 0 then (json 404 False (no_encontrado r) NoData, c1)
               else (json 200 True (eliminado r) NoData, c1))"

subsection \<open>Create\<close>

text \<open>
  What every \<^verbatim>\<open>router.post('/')\<close> handler does once it has its bind parameters:
  the INSERT, then the re-read by \<^verbatim>\<open>result.insertId\<close>, then 201 with \<^verbatim>\<open>rows[0]\<close>.
\<close>

definition insert_and_reread ::
  "resource \<Rightarrow> 's env \<Rightarrow> 's conn \<Rightarrow> jsval list \<Rightarrow> response \<times> 's conn" where
  "insert_and_reread r env c vals =
     (if \<not> getPool env then (json 500 False (error_insertando r) NoData, c)
      else case pool_query env c (INSERT_INTO r) vals of
             (None, c1) \<Rightarrow> (json 500 False (error_insertando r) NoData, c1)
           | (Some result, c1) \<Rightarrow>
               (case pool_query env c1 (SELECT_BY_ID r) [Num (of_nat (insertId result))] of
                  (None, c2) \<Rightarrow> (json 500 False (error_insertando r) NoData, c2)
                | (Some res, c2) \<Rightarrow> (json 201 True (creado r) (first_row (rows res)), c2)))"

text \<open>The bind parameters of the four INSERTs, as each handler writes them.\<close>

definition categorias_post_values :: "row \<Rightarrow> jsval list" where
  "categorias_post_values b = [member b ''nombre'']"

definition productos_post_values :: "row \<Rightarrow> jsval list" where
  "productos_post_values b =
     [member b ''categoria_id'', member b ''nombre'',
      nullish (member b ''descripcion'') Null, member b ''precio'',
      nullish (member b ''disponible'') (Num 1)]"

definition ingredientes_post_values :: "row \<Rightarrow> jsval list" where
  "ingredientes_post_values b =
     [member b ''nombre'',
      if member b ''perecedero'' \<noteq> Undefined
      then (if truthy (member b ''perecedero'') then Num 1 else Num 0)
      else Num 1]"

definition producto_ingrediente_post_values :: "row \<Rightarrow> jsval list" where
  "producto_ingrediente_post_values b =
     [member b ''producto_id'', member b ''ingrediente_id'', member b ''cantidad_usada'']"

fun post_values :: "resource \<Rightarrow> row \<Rightarrow> jsval list" where
  "post_values Categorias = categorias_post_values"
| "post_values Productos = productos_post_values"
| "post_values Ingredientes = ingredientes_post_values"
| "post_values ProductoIngrediente = producto_ingrediente_post_values"

definition post_handler ::
  "resource \<Rightarrow> 's env \<Rightarrow> 's conn \<Rightarrow> request \<Rightarrow> response \<times> 's conn" where
  "post_handler r env c req = insert_and_reread r env c (post_values r (body req))"

subsection \<open>Partial Update\<close>

text \<open>
  What every \<^verbatim>\<open>router.put('/:id')\<close> handler does once it knows there is something
  to update: \<^verbatim>\<open>values.push(id)\<close>, the UPDATE, the check of \<^verbatim>\<open>affectedRows\<close>, the
  re-read by the path id, then 200 with \<^verbatim>\<open>rows[0]\<close>.
\<close>

definition update_and_reread ::
  "resource \<Rightarrow> 's env \<Rightarrow> 's conn \<Rightarrow> string \<Rightarrow> string list \<Rightarrow> jsval list \<Rightarrow> response \<times> 's conn"
  where
  "update_and_reread r env c ident sets vals =
     (if \<not> getPool env then (json 500 False (error_actualizando r) NoData, c)
      else case pool_query env c (UPDATE_SET r sets) (vals @ [Str ident]) of
             (None, c1) \<Rightarrow> (json 500 False (error_actualizando r) NoData, c1)
           | (Some result, c1) \<Rightarrow>
               if affectedRows result = 0 then (json 404 False (no_encontrado r) NoData, c1)
               else (case pool_query env c1 (SELECT_BY_ID r) [Str ident] of
                       (None, c2) \<Rightarrow> (json 500 False (error_actualizando r) NoData, c2)
                     | (Some res, c2) \<Rightarrow>
                         (json 200 True (actualizado r) (first_row (rows res)), c2)))"

text \<open>
  \<^verbatim>\<open>categorias.routes.js\<close>: the statement is a constant, and the only test is
  \<^verbatim>\<open>nombre === undefined\<close>.
\<close>

definition categorias_put :: "'s env \<Rightarrow> 's conn \<Rightarrow> request \<Rightarrow> response \<times> 's conn" where
  "categorias_put env c req =
     (let nombre = member (body req) ''nombre'' in
      if nombre = Undefined then (json 400 False nada NoData, c)
      else update_and_reread Categorias env c (params_id req) [''nombre = ?''] [nombre])"

text \<open>
  \<^verbatim>\<open>productos.routes.js\<close>: the loop over \<^verbatim>\<open>allowedFields\<close>, pushing onto
  \<^verbatim>\<open>sets\<close> and \<^verbatim>\<open>values\<close>, with the boolean of \<^verbatim>\<open>disponible\<close> turned into 1 or 0.
\<close>

definition allowedFields :: "string list" where
  "allowedFields = [''categoria_id'', ''nombre'', ''descripcion'', ''precio'', ''disponible'']"

fun productos_loop ::
  "row \<Rightarrow> string list \<Rightarrow> string list \<times> jsval list \<Rightarrow> string list \<times> jsval list" where
  "productos_loop bodyData [] (sets, vals) = (sets, vals)"
| "productos_loop bodyData (field # rest) (sets, vals) =
     (if member bodyData field \<noteq> Undefined
      then productos_loop bodyData rest
             (sets @ [field @ '' = ?''],
              vals @ [if field = ''disponible''
                      then (if truthy (member bodyData field) then Num 1 else Num 0)
                      else member bodyData field])
      else productos_loop bodyData rest (sets, vals))"

definition productos_put :: "'s env \<Rightarrow> 's conn \<Rightarrow> request \<Rightarrow> response \<times> 's conn" where
  "productos_put env c req =
     (case productos_loop (body req) allowedFields ([], []) of
        (sets, vals) \<Rightarrow>
          if sets = [] then (json 400 False nada NoData, c)
          else update_and_reread Productos env c (params_id req) sets vals)"

text \<open>
  \<^verbatim>\<open>ingredientes.routes.js\<close> and \<^verbatim>\<open>producto_ingrediente.routes.js\<close>: one
  \<^verbatim>\<open>if\<close> per field, each pushing a constant fragment and the body's value.
\<close>

text \<open>\<^verbatim>\<open>if (present) { sets.push(fragment); values.push(v); }\<close> on the pair of arrays.\<close>

definition push_if ::
  "bool \<Rightarrow> string \<Rightarrow> jsval \<Rightarrow> string list \<times> jsval list \<Rightarrow> string list \<times> jsval list" where
  "push_if present fragment v acc =
     (if present then (fst acc @ [fragment], snd acc @ [v]) else acc)"

definition ingredientes_sets :: "row \<Rightarrow> string list \<times> jsval list" where
  "ingredientes_sets bodyData =
     (let acc = ([], []);
          acc = push_if (member bodyData ''nombre'' \<noteq> Undefined) ''nombre = ?''
                  (member bodyData ''nombre'') acc;
          acc = push_if (member bodyData ''perecedero'' \<noteq> Undefined) ''perecedero = ?''
                  (if truthy (member bodyData ''perecedero'') then Num 1 else Num 0) acc
      in acc)"

definition ingredientes_put :: "'s env \<Rightarrow> 's conn \<Rightarrow> request \<Rightarrow> response \<times> 's conn" where
  "ingredientes_put env c req =
     (case ingredientes_sets (body req) of
        (sets, vals) \<Rightarrow>
          if sets = [] then (json 400 False nada NoData, c)
          else update_and_reread Ingredientes env c (params_id req) sets vals)"

definition producto_ingrediente_sets :: "row \<Rightarrow> string list \<times> jsval list" where
  "producto_ingrediente_sets bodyData =
     (let acc = ([], []);
          acc = push_if (member bodyData ''producto_id'' \<noteq> Undefined) ''producto_id = ?''
                  (member bodyData ''producto_id'') acc;
          acc = push_if (member bodyData ''ingrediente_id'' \<noteq> Undefined) ''ingrediente_id = ?''
                  (member bodyData ''ingrediente_id'') acc;
          acc = push_if (member bodyData ''cantidad_usada'' \<noteq> Undefined) ''cantidad_usada = ?''
                  (member bodyData ''cantidad_usada'') acc
      in acc)"

definition producto_ingrediente_put ::
  "'s env \<Rightarrow> 's conn \<Rightarrow> request \<Rightarrow> response \<times> 's conn" where
  "producto_ingrediente_put env c req =
     (case producto_ingrediente_sets (body req) of
        (sets, vals) \<Rightarrow>
          if sets = [] then (json 400 False nada NoData, c)
          else update_and_reread ProductoIngrediente env c (params_id req) sets vals)"

fun put_handler :: "resource \<Rightarrow> 's env \<Rightarrow> 's conn \<Rightarrow> request \<Rightarrow> response \<times> 's conn" where
  "put_handler Categorias = categorias_put"
| "put_handler Productos = productos_put"
| "put_handler Ingredientes = ingredientes_put"
| "put_handler ProductoIngrediente = producto_ingrediente_put"

section \<open>A reference storage\<close>

text \<open>
  The statements are SQL, run by the database behind the driver. To speak about stored
  rows, this section gives the five statement forms their relational meaning over four
  in-memory tables. A table is the list of its rows, each with its primary key and its
  stored columns. A cell holds the bind parameter as the driver rendered it; conversion
  to a column type is not part of the model, and a key comparison reads an integer string
  as the number it denotes. No constraint beyond the generated primary key is imposed: a
  constraint can only make a write fail, and a failed statement is the \<open>None\<close> that
  every handler already treats.
\<close>

type_synonym table = "(nat \<times> row) list"

record db =
  tables :: "resource \<Rightarrow> table"
  auto_increment :: "resource \<Rightarrow> nat"
  clock :: nat

text \<open>The column lists of the INSERT statements: the client-writable columns of each table.\<close>

fun columns :: "resource \<Rightarrow> string list" where
  "columns Categorias = [''nombre'']"
| "columns Productos = [''categoria_id'', ''nombre'', ''descripcion'', ''precio'', ''disponible'']"
| "columns Ingredientes = [''nombre'', ''perecedero'']"
| "columns ProductoIngrediente = [''producto_id'', ''ingrediente_id'', ''cantidad_usada'']"

text \<open>
  How the driver writes a bind parameter into the statement: \<^verbatim>\<open>undefined\<close> and
  \<^verbatim>\<open>null\<close> become NULL, a boolean becomes \<^verbatim>\<open>true\<close> or \<^verbatim>\<open>false\<close>, which SQL reads
  as 1 and 0.
\<close>

fun bind :: "jsval \<Rightarrow> jsval" where
  "bind Undefined = Null"
| "bind (Bool b) = Num (if b then 1 else 0)"
| "bind v = v"

text \<open>A string of decimal digits with an optional sign, read as an integer.\<close>

definition digit :: "char \<Rightarrow> nat option" where
  "digit ch =
     (if (48::nat) \<le> of_char ch \<and> of_char ch \<le> (57::nat) then Some (of_char ch - 48) else None)"

fun digits :: "nat \<Rightarrow> string \<Rightarrow> nat option" where
  "digits acc [] = Some acc"
| "digits acc (ch # cs) =
     (case digit ch of None \<Rightarrow> None | Some n \<Rightarrow> digits (10 * acc + n) cs)"

definition int_of_string :: "string \<Rightarrow> int option" where
  "int_of_string s =
     (case s of
        [] \<Rightarrow> None
      | ch # cs \<Rightarrow>
          if ch = CHR ''-'' then (if cs = [] then None else map_option (\<lambda>n. - int n) (digits 0 cs))
          else if ch = CHR ''+'' then (if cs = [] then None else map_option int (digits 0 cs))
          else map_option int (digits 0 s))"

text \<open>
  The comparison \<^verbatim>\<open>id = ?\<close> of an integer column with a bind parameter, and the join
  condition on a foreign key: a number is compared as it is, an integer string by the
  number it denotes. NULL and any other string equal no key.
\<close>

fun sql_num :: "jsval \<Rightarrow> rat option" where
  "sql_num (Num q) = Some q"
| "sql_num (Str s) = map_option of_int (int_of_string s)"
| "sql_num (Bool b) = Some (if b then 1 else 0)"
| "sql_num Null = None"
| "sql_num Undefined = None"

definition key_eq :: "jsval \<Rightarrow> nat \<times> row \<Rightarrow> bool" where
  "key_eq v p = (sql_num v = Some (of_nat (fst p)))"

text \<open>\<^verbatim>\<open>ORDER BY id DESC\<close>.\<close>

definition desc :: "table \<Rightarrow> table" where
  "desc t = rev (sort_key fst t)"

text \<open>
  The result rows one stored row contributes to a read: the SELECT list of the resource,
  once per combination of matching parent rows of its inner joins.
\<close>

fun project :: "db \<Rightarrow> resource \<Rightarrow> nat \<times> row \<Rightarrow> row list" where
  "project d Categorias (k, r) =
     [[(''id'', Num (of_nat k)), (''nombre'', member r ''nombre''),
       (''created_at'', member r ''created_at''), (''updated_at'', member r ''updated_at'')]]"
| "project d Productos (k, r) =
     map (\<lambda>c. [(''id'', Num (of_nat k)), (''categoria_id'', member r ''categoria_id''),
                (''categoria'', member (snd c) ''nombre''),
                (''nombre'', member r ''nombre''), (''descripcion'', member r ''descripcion''),
                (''precio'', member r ''precio''), (''disponible'', member r ''disponible''),
                (''created_at'', member r ''created_at''),
                (''updated_at'', member r ''updated_at'')])
       (filter (key_eq (member r ''categoria_id'')) (tables d Categorias))"
| "project d Ingredientes (k, r) =
     [[(''id'', Num (of_nat k)), (''nombre'', member r ''nombre''),
       (''perecedero'', member r ''perecedero''),
       (''created_at'', member r ''created_at''), (''updated_at'', member r ''updated_at'')]]"
| "project d ProductoIngrediente (k, r) =
     concat (map (\<lambda>p. map (\<lambda>i.
               [(''id'', Num (of_nat k)), (''producto_id'', member r ''producto_id''),
                (''producto'', member (snd p) ''nombre''),
                (''ingrediente_id'', member r ''ingrediente_id''),
                (''ingrediente'', member (snd i) ''nombre''),
                (''cantidad_usada'', member r ''cantidad_usada''),
                (''created_at'', member r ''created_at''),
                (''updated_at'', member r ''updated_at'')])
               (filter (key_eq (member r ''ingrediente_id'')) (tables d Ingredientes)))
       (filter (key_eq (member r ''producto_id'')) (tables d Productos)))"

definition select_all :: "db \<Rightarrow> resource \<Rightarrow> row list" where
  "select_all d r = concat (map (project d r) (desc (tables d r)))"

definition select_by_id :: "db \<Rightarrow> resource \<Rightarrow> jsval \<Rightarrow> row list" where
  "select_by_id d r v = concat (map (project d r) (filter (key_eq v) (tables d r)))"

text \<open>The column a fragment \<^verbatim>\<open>column = ?\<close> of a SET clause assigns.\<close>

definition column_of :: "string \<Rightarrow> string option" where
  "column_of s =
     (if 4 \<le> length s \<and> drop (length s - 4) s = '' = ?''
      then Some (take (length s - 4) s) else None)"

text \<open>
  Modelled from the spec: the table declarations are not among the sources. Of them the
  spec says that \<^verbatim>\<open>created_at\<close> and \<^verbatim>\<open>updated_at\<close> are server-assigned, that an
  update changes only the supplied fields, and that \<^verbatim>\<open>updated_at\<close> refreshes. An
  assignment list is applied to a stored row in order, the clock value going to
  \<^verbatim>\<open>updated_at\<close>.
\<close>

definition assign :: "row \<Rightarrow> jsval \<Rightarrow> row \<Rightarrow> row" where
  "assign asg now r =
     map (\<lambda>cell. (fst cell,
            case map_of (rev asg) (fst cell) of
              Some v \<Rightarrow> v
            | None \<Rightarrow> if fst cell = ''updated_at'' then now else snd cell)) r"

definition result_set :: "row list \<Rightarrow> qresult" where
  "result_set rs = \<lparr>rows = rs, affectedRows = 0, insertId = 0\<rparr>"

definition header :: "nat \<Rightarrow> nat \<Rightarrow> qresult" where
  "header n k = \<lparr>rows = [], affectedRows = n, insertId = k\<rparr>"

text \<open>
  The executor. A statement whose placeholders and parameters do not match, or whose SET
  clause is empty, malformed or names a column the table does not have, is rejected. The
  affected-row count of an UPDATE is the number of rows its WHERE clause matches.
\<close>

fun mysql_query :: "db \<Rightarrow> sql \<Rightarrow> jsval list \<Rightarrow> qresult option \<times> db" where
  "mysql_query d (SELECT_ALL r) ps =
     (if ps = [] then (Some (result_set (select_all d r)), d) else (None, d))"
| "mysql_query d (SELECT_BY_ID r) ps =
     (case ps of
        [v] \<Rightarrow> (Some (result_set (select_by_id d r v)), d)
      | _ \<Rightarrow> (None, d))"
| "mysql_query d (INSERT_INTO r) ps =
     (if length ps \<noteq> length (columns r) then (None, d)
      else
        let k = auto_increment d r;
            now = Num (of_nat (clock d));
            new = zip (columns r) (map bind ps) @ [(''created_at'', now), (''updated_at'', now)]
        in (Some (header 1 k),
            d\<lparr>tables := (tables d)(r := tables d r @ [(k, new)]),
              auto_increment := (auto_increment d)(r := Suc k),
              clock := Suc (clock d)\<rparr>))"
| "mysql_query d (UPDATE_SET r sets) ps =
     (case those (map column_of sets) of
        None \<Rightarrow> (None, d)
      | Some cols \<Rightarrow>
          if cols = [] \<or> \<not> set cols \<subseteq> set (columns r) \<or> length ps \<noteq> Suc (length cols)
          then (None, d)
          else
            let asg = zip cols (map bind (butlast ps));
                now = Num (of_nat (clock d))
            in (Some (header (length (filter (key_eq (last ps)) (tables d r))) 0),
                d\<lparr>tables := (tables d)(r :=
                     map (\<lambda>p. if key_eq (last ps) p then (fst p, assign asg now (snd p)) else p)
                       (tables d r)),
                  clock := Suc (clock d)\<rparr>))"
| "mysql_query d (DELETE_FROM r) ps =
     (case ps of
        [v] \<Rightarrow>
          (Some (header (length (filter (key_eq v) (tables d r))) 0),
           d\<lparr>tables := (tables d)(r := filter (\<lambda>p. \<not> key_eq v p) (tables d r))\<rparr>)
      | _ \<Rightarrow> (None, d))"

definition mysql :: "db env" where
  "mysql = \<lparr>getPool = True, query = mysql_query\<rparr>"

text \<open>A fresh database, and a handler state over a database with nothing issued yet.\<close>

definition empty_db :: db where
  "empty_db = \<lparr>tables = (\<lambda>_. []), auto_increment = (\<lambda>_. 1), clock = 0\<rparr>"

definition start :: "'s \<Rightarrow> 's conn" where
  "start s = \<lparr>store = s, issued = []\<rparr>"

section \<open>Validation of the producto_ingrediente routes\<close>

text \<open>
  The rules \<^verbatim>\<open>isInt()\<close> and \<^verbatim>\<open>isFloat({ gt: 0 })\<close> on a body member or on the path
  id. The validator library turns the value into a string and tests the string: the
  string of a number is an integer numeral exactly when the number is an integer below
  \<open>10\<^sup>2\<^sup>1\<close> in magnitude, and it always reads back as the number itself. What the float
  rule reads from a body member that is a string is left to the parameter
  \<open>float_value\<close> (\<open>None\<close> when the rule does not accept the string as a number).
\<close>

fun isInt :: "jsval \<Rightarrow> bool" where
  "isInt (Num q) = (of_int \<lfloor>q\<rfloor> = q \<and> \<bar>q\<bar> < 10 ^ 21)"
| "isInt (Str s) = (int_of_string s \<noteq> None)"
| "isInt (Bool b) = False"
| "isInt Null = False"
| "isInt Undefined = False"

fun isFloat_gt :: "(string \<Rightarrow> rat option) \<Rightarrow> rat \<Rightarrow> jsval \<Rightarrow> bool" where
  "isFloat_gt float_value g (Num q) = (g < q)"
| "isFloat_gt float_value g (Str s) = (case float_value s of None \<Rightarrow> False | Some q \<Rightarrow> g < q)"
| "isFloat_gt float_value g (Bool b) = False"
| "isFloat_gt float_value g Null = False"
| "isFloat_gt float_value g Undefined = False"

text \<open>\<^verbatim>\<open>.optional()\<close>: the rule is skipped when the member is \<^verbatim>\<open>undefined\<close>.\<close>

definition optional :: "(jsval \<Rightarrow> bool) \<Rightarrow> jsval \<Rightarrow> bool" where
  "optional rule v = (v = Undefined \<or> rule v)"

text \<open>One validation chain: the name of the field if its rule fails, nothing otherwise.\<close>

definition check :: "string \<Rightarrow> bool \<Rightarrow> string list" where
  "check field passed = (if passed then [] else [field])"

text \<open>The chains in front of \<^verbatim>\<open>router.post('/')\<close> and \<^verbatim>\<open>router.put('/:id')\<close>.\<close>

definition producto_ingrediente_post_errors ::
  "(string \<Rightarrow> rat option) \<Rightarrow> request \<Rightarrow> string list" where
  "producto_ingrediente_post_errors float_value req =
     check ''producto_id'' (isInt (member (body req) ''producto_id'')) @
     check ''ingrediente_id'' (isInt (member (body req) ''ingrediente_id'')) @
     check ''cantidad_usada'' (isFloat_gt float_value 0 (member (body req) ''cantidad_usada''))"

definition producto_ingrediente_put_errors ::
  "(string \<Rightarrow> rat option) \<Rightarrow> request \<Rightarrow> string list" where
  "producto_ingrediente_put_errors float_value req =
     check ''id'' (isInt (Str (params_id req))) @
     check ''producto_id'' (optional isInt (member (body req) ''producto_id'')) @
     check ''ingrediente_id'' (optional isInt (member (body req) ''ingrediente_id'')) @
     check ''cantidad_usada''
       (optional (isFloat_gt float_value 0) (member (body req) ''cantidad_usada''))"

text \<open>
  Modelled from the spec: \<^verbatim>\<open>handleValidation\<close> (\<^verbatim>\<open>routes/validators.js\<close>) is not
  among the sources. The spec has the validator produce a list of failures and the
  request short-circuit with a client error (400) before storage is touched; without
  failures the handler runs. The failure outcome is \<open>Inl\<close> of the failing fields.
\<close>

definition handleValidation ::
  "string list \<Rightarrow> ('s conn \<Rightarrow> response \<times> 's conn) \<Rightarrow> 's conn
     \<Rightarrow> (string list + response) \<times> 's conn" where
  "handleValidation errors next_handler c =
     (if errors \<noteq> [] then (Inl errors, c)
      else case next_handler c of (resp, c') \<Rightarrow> (Inr resp, c'))"

definition http_status :: "string list + response \<Rightarrow> nat" where
  "http_status out = (case out of Inl _ \<Rightarrow> 400 | Inr resp \<Rightarrow> status resp)"

definition producto_ingrediente_post_route ::
  "(string \<Rightarrow> rat option) \<Rightarrow> 's env \<Rightarrow> 's conn \<Rightarrow> request
     \<Rightarrow> (string list + response) \<times> 's conn" where
  "producto_ingrediente_post_route float_value env c req =
     handleValidation (producto_ingrediente_post_errors float_value req)
       (\<lambda>c'. post_handler ProductoIngrediente env c' req) c"

definition producto_ingrediente_put_route ::
  "(string \<Rightarrow> rat option) \<Rightarrow> 's env \<Rightarrow> 's conn \<Rightarrow> request
     \<Rightarrow> (string list + response) \<times> 's conn" where
  "producto_ingrediente_put_route float_value env c req =
     handleValidation (producto_ingrediente_put_errors float_value req)
       (\<lambda>c'. put_handler ProductoIngrediente env c' req) c"

section \<open>The vocabulary of the specification\<close>

text \<open>
  The terms in which the specification describes a Partial Update: the recognised fields
  of a resource that are present in a body, the SET fragment of a field, and the value
  bound to it (1 or 0 for the two boolean columns, the body's value otherwise).
\<close>

definition present_fields :: "resource \<Rightarrow> row \<Rightarrow> string list" where
  "present_fields r b = filter (\<lambda>f. member b f \<noteq> Undefined) (columns r)"

definition fragment :: "string \<Rightarrow> string" where
  "fragment f = f @ '' = ?''"

definition written_value :: "resource \<Rightarrow> row \<Rightarrow> string \<Rightarrow> jsval" where
  "written_value r b f =
     (if (r = Productos \<and> f = ''disponible'') \<or> (r = Ingredientes \<and> f = ''perecedero'')
      then (if truthy (member b f) then Num 1 else Num 0)
      else member b f)"

definition update_statement :: "resource \<Rightarrow> request \<Rightarrow> sql" where
  "update_statement r req = UPDATE_SET r (map fragment (present_fields r (body req)))"

definition update_params :: "resource \<Rightarrow> request \<Rightarrow> jsval list" where
  "update_params r req =
     map (written_value r (body req)) (present_fields r (body req)) @ [Str (params_id req)]"

text \<open>
  A stored row has its parents when every inner join of the resource's read projection
  finds a row for it.
\<close>

fun has_parents :: "db \<Rightarrow> resource \<Rightarrow> nat \<times> row \<Rightarrow> bool" where
  "has_parents d Categorias p = True"
| "has_parents d Productos p =
     list_ex (key_eq (member (snd p) ''categoria_id'')) (tables d Categorias)"
| "has_parents d Ingredientes p = True"
| "has_parents d ProductoIngrediente p =
     (list_ex (key_eq (member (snd p) ''producto_id'')) (tables d Productos) \<and>
      list_ex (key_eq (member (snd p) ''ingrediente_id'')) (tables d Ingredientes))"

text \<open>The primary key: no table holds two rows with the same id.\<close>

definition keys_distinct :: "db \<Rightarrow> bool" where
  "keys_distinct d =
     (distinct (map fst (tables d Categorias)) \<and> distinct (map fst (tables d Productos)) \<and>
      distinct (map fst (tables d Ingredientes)) \<and>
      distinct (map fst (tables d ProductoIngrediente)))"

section \<open>Two storage states used as examples\<close>

text \<open>
  One category, one product in it and one product whose \<^verbatim>\<open>categoria_id\<close> names no
  category; one ingredient, used by the first product, and one relation whose
  \<^verbatim>\<open>producto_id\<close> names no product.
\<close>

definition menu_db :: db where
  "menu_db =
     \<lparr>tables = (\<lambda>_. [])
        (Categorias := [(1, [(''nombre'', Str ''Hamburguesas''),
                             (''created_at'', Num 0), (''updated_at'', Num 0)])],
         Productos :=
           [(1, [(''categoria_id'', Num 1), (''nombre'', Str ''Cheeseburger''),
                 (''descripcion'', Null), (''precio'', Num (91 / 2)), (''disponible'', Num 1),
                 (''created_at'', Num 1), (''updated_at'', Num 1)]),
            (2, [(''categoria_id'', Num 9), (''nombre'', Str ''Taco''),
                 (''descripcion'', Null), (''precio'', Num 20), (''disponible'', Num 1),
                 (''created_at'', Num 2), (''updated_at'', Num 2)])],
         Ingredientes := [(1, [(''nombre'', Str ''Queso''), (''perecedero'', Num 1),
                               (''created_at'', Num 0), (''updated_at'', Num 0)])],
         ProductoIngrediente :=
           [(1, [(''producto_id'', Num 1), (''ingrediente_id'', Num 1),
                 (''cantidad_usada'', Num (1 / 4)),
                 (''created_at'', Num 2), (''updated_at'', Num 2)]),
            (2, [(''producto_id'', Num 5), (''ingrediente_id'', Num 1),
                 (''cantidad_usada'', Num 2),
                 (''created_at'', Num 2), (''updated_at'', Num 2)])]),
      auto_increment =
        (\<lambda>_. 1)(Categorias := 2, Productos := 3, Ingredientes := 2, ProductoIngrediente := 3),
      clock = 3\<rparr>"

text \<open>The only stored product refers to a category that does not exist.\<close>

definition orphan_db :: db where
  "orphan_db =
     \<lparr>tables = (\<lambda>_. [])
        (Productos :=
           [(1, [(''categoria_id'', Num 9), (''nombre'', Str ''Taco''),
                 (''descripcion'', Null), (''precio'', Num 20), (''disponible'', Num 1),
                 (''created_at'', Num 0), (''updated_at'', Num 0)])]),
      auto_increment = (\<lambda>_. 1)(Productos := 2),
      clock = 1\<rparr>"

text \<open>Requests used as examples.\<close>

definition put_unknown :: request where
  "put_unknown = \<lparr>params_id = ''1'', body = [(''color'', Str ''rojo'')]\<rparr>"

definition put_absent :: request where
  "put_absent = \<lparr>params_id = ''7'', body = [(''nombre'', Str ''Nachos'')]\<rparr>"

definition get_one :: request where
  "get_one = \<lparr>params_id = ''1'', body = []\<rparr>"

definition put_disponible :: request where
  "put_disponible =
     \<lparr>params_id = ''1'', body = [(''disponible'', Bool False), (''color'', Str ''rojo'')]\<rparr>"

definition post_papas :: request where
  "post_papas =
     \<lparr>params_id = [],
      body = [(''categoria_id'', Num 1), (''nombre'', Str ''Papas''), (''precio'', Num 15)]\<rparr>"

definition put_hostile :: request where
  "put_hostile =
     \<lparr>params_id = ''1'',
      body = [(''nombre = nombre, precio'', Num 0), (''precio'', Num 10)]\<rparr>"

definition post_cheeseburger :: request where
  "post_cheeseburger =
     \<lparr>params_id = [],
      body = [(''categoria_id'', Num 1), (''nombre'', Str ''Cheeseburger''),
              (''precio'', Num (91 / 2)), (''disponible'', Bool False)]\<rparr>"

definition post_queso :: request where
  "post_queso =
     \<lparr>params_id = [], body = [(''nombre'', Str ''Queso''), (''perecedero'', Bool False)]\<rparr>"

definition post_sin_cantidad :: request where
  "post_sin_cantidad =
     \<lparr>params_id = [],
      body = [(''producto_id'', Num 1), (''ingrediente_id'', Num 1), (''cantidad_usada'', Num 0)]\<rparr>"

definition post_un_cuarto :: request where
  "post_un_cuarto =
     \<lparr>params_id = [],
      body = [(''producto_id'', Num 1), (''ingrediente_id'', Num 1),
              (''cantidad_usada'', Num (1 / 4))]\<rparr>"

text \<open>A reading of numeric strings, for the examples: it accepts none.\<close>

definition no_numeric_strings :: "string \<Rightarrow> rat option" where
  "no_numeric_strings s = None"

definition get_two :: request where
  "get_two = \<lparr>params_id = ''2'', body = []\<rparr>"

definition post_sopa :: request where
  "post_sopa =
     \<lparr>params_id = [],
      body = [(''categoria_id'', Num 9), (''nombre'', Str ''Sopa''), (''precio'', Num 30)]\<rparr>"

definition put_mudanza :: request where
  "put_mudanza = \<lparr>params_id = ''1'', body = [(''categoria_id'', Num 9)]\<rparr>"

section \<open>The Partial Update handlers in the specification's terms\<close>

lemmas storage_defs =
  mysql_def start_def menu_db_def orphan_db_def empty_db_def select_by_id_def select_all_def
  key_eq_def int_of_string_def digit_def member_def result_set_def header_def desc_def
  column_of_def assign_def

lemma productos_loop_filter:
  "productos_loop b fs (sets, vals) =
     (sets @ map fragment (filter (\<lambda>f. member b f \<noteq> Undefined) fs),
      vals @ map (written_value Productos b) (filter (\<lambda>f. member b f \<noteq> Undefined) fs))"
  by (induction fs arbitrary: sets vals) (simp_all add: fragment_def written_value_def)

text \<open>
  All four handlers do the same thing: nothing when no recognised field is present, and
  otherwise the UPDATE whose fragments and parameters are those of the present fields, in
  the order of the column list.
\<close>

lemma put_handler_unfold:
  "put_handler r env c req =
     (if present_fields r (body req) = [] then (json 400 False nada NoData, c)
      else update_and_reread r env c (params_id req)
             (map fragment (present_fields r (body req)))
             (map (written_value r (body req)) (present_fields r (body req))))"
proof (cases r)
  case Categorias
  then show ?thesis
    by (simp add: categorias_put_def present_fields_def fragment_def written_value_def Let_def)
next
  case Productos
  then show ?thesis
    by (simp add: productos_put_def productos_loop_filter present_fields_def allowedFields_def)
next
  case Ingredientes
  then show ?thesis
    by (simp add: ingredientes_put_def ingredientes_sets_def push_if_def present_fields_def
        fragment_def written_value_def Let_def)
next
  case ProductoIngrediente
  then show ?thesis
    by (simp add: producto_ingrediente_put_def producto_ingrediente_sets_def push_if_def
        present_fields_def fragment_def written_value_def Let_def)
qed

lemma present_fields_subset: "set (present_fields r b) \<subseteq> set (columns r)"
  by (auto simp: present_fields_def)

lemma present_fields_subseq: "subseq (present_fields r b) (columns r)"
  by (simp add: present_fields_def)

section \<open>The reference storage under the statements of the handlers\<close>

lemma column_of_fragment: "column_of (fragment f) = Some f"
  by (simp add: column_of_def fragment_def)

lemma those_column_of_comp: "those (map (column_of \<circ> fragment) fs) = Some fs"
  by (induction fs) (simp_all add: column_of_fragment)

lemma mysql_update:
  assumes "fs \<noteq> []" and "set fs \<subseteq> set (columns r)" and "length vals = length fs"
  shows "mysql_query d (UPDATE_SET r (map fragment fs)) (vals @ [v]) =
           (Some (header (length (filter (key_eq v) (tables d r))) 0),
            d\<lparr>tables := (tables d)(r :=
                 map (\<lambda>p. if key_eq v p
                           then (fst p, assign (zip fs (map bind vals)) (Num (of_nat (clock d))) (snd p))
                           else p) (tables d r)),
              clock := Suc (clock d)\<rparr>)"
  using assms by (simp add: those_column_of_comp Let_def)

lemma mysql_select_by_id:
  "mysql_query d (SELECT_BY_ID r) [v] = (Some (result_set (select_by_id d r v)), d)"
  by simp

lemma map_of_map_cell:
  "map_of (map (\<lambda>cell. (fst cell, g cell)) r) col =
     (case map_of r col of None \<Rightarrow> None | Some v \<Rightarrow> Some (g (col, v)))"
  by (induction r) auto

text \<open>An assignment list leaves every column it does not name as it was, the timestamp apart.\<close>

lemma member_assign:
  assumes "col \<notin> fst ` set asg" and "col \<noteq> ''updated_at''"
  shows "member (assign asg now r) col = member r col"
proof -
  from assms(1) have "map_of (rev asg) col = None"
    by (simp add: map_of_eq_None_iff)
  with assms(2) show ?thesis
    by (simp add: member_def assign_def map_of_map_cell split: option.splits)
qed

text \<open>The storage a Partial Update with a present field leaves behind, found or not.\<close>

lemma put_handler_mysql_store:
  assumes "present_fields r (body req) \<noteq> []"
  shows "store (snd (put_handler r mysql (start d) req)) =
           d\<lparr>tables := (tables d)(r :=
                map (\<lambda>p. if key_eq (Str (params_id req)) p
                          then (fst p,
                                assign (zip (present_fields r (body req))
                                          (map bind (map (written_value r (body req))
                                                       (present_fields r (body req)))))
                                  (Num (of_nat (clock d))) (snd p))
                          else p) (tables d r)),
             clock := Suc (clock d)\<rparr>"
proof -
  have "length (map (written_value r (body req)) (present_fields r (body req)))
          = length (present_fields r (body req))"
    by simp
  note upd = mysql_update [OF assms present_fields_subset this]
  from assms show ?thesis
    by (simp add: put_handler_unfold update_and_reread_def pool_query_def mysql_def start_def
        upd mysql_select_by_id del: mysql_query.simps)
qed

section \<open>Reads on the reference storage\<close>

lemma get_all_mysql:
  "get_all r mysql (start d) =
     (json 200 True consulta_ok (Many (select_all d r)),
      \<lparr>store = d, issued = [(SELECT_ALL r, [])]\<rparr>)"
  by (simp add: get_all_def pool_query_def mysql_def start_def result_set_def)

lemma keys_distinct_table: "keys_distinct d \<Longrightarrow> distinct (map fst (tables d r))"
  by (cases r) (simp_all add: keys_distinct_def)

lemma key_eq_same_key: "key_eq v p \<Longrightarrow> key_eq v p' \<Longrightarrow> fst p = fst p'"
  by (simp add: key_eq_def)

lemma key_eq_path_id:
  assumes "int_of_string s = Some (int k)"
  shows "key_eq (Str s) p \<longleftrightarrow> fst p = k"
  using assms by (auto simp: key_eq_def)

lemma distinct_keys_same_row:
  assumes "distinct (map fst t)" and "p \<in> set t" and "p' \<in> set t" and "fst p' = fst p"
  shows "p' = p"
  using assms by (meson distinct_map inj_onD)

text \<open>Under a primary key, a key comparison selects at most one row.\<close>

lemma filter_key_eq_unique:
  assumes "distinct (map fst t)"
  shows "filter (key_eq v) t = [] \<or> (\<exists>p. filter (key_eq v) t = [p])"
  using assms
proof (induction t)
  case Nil
  then show ?case by simp
next
  case (Cons a t)
  show ?case
  proof (cases "key_eq v a")
    case True
    have "filter (key_eq v) t = []"
    proof (rule ccontr)
      assume "filter (key_eq v) t \<noteq> []"
      then obtain b where b: "b \<in> set t" "key_eq v b"
        by (auto simp: filter_empty_conv)
      with True have "fst a = fst b" by (rule_tac key_eq_same_key)
      with b(1) Cons.prems show False by force
    qed
    with True show ?thesis by simp
  next
    case False
    with Cons show ?thesis by simp
  qed
qed

text \<open>A stored row contributes to a read exactly when it has its parents, and then once.\<close>

lemma project_nonempty: "project d r p \<noteq> [] \<longleftrightarrow> has_parents d r p"
  by (cases r; cases p) (auto simp: list_ex_iff filter_empty_conv)

lemma project_ids:
  assumes "keys_distinct d"
  shows "map (\<lambda>rw. member rw ''id'') (project d r p) =
           (if has_parents d r p then [Num (of_nat (fst p))] else [])"
proof (cases p)
  case (Pair k row)
  show ?thesis
  proof (cases r)
    case Categorias
    with Pair show ?thesis by (simp add: member_def)
  next
    case Ingredientes
    with Pair show ?thesis by (simp add: member_def)
  next
    case Productos
    from assms have "distinct (map fst (tables d Categorias))"
      by (simp add: keys_distinct_def)
    from filter_key_eq_unique [OF this, of "member row ''categoria_id''"]
    show ?thesis using Pair Productos
      by (auto simp: member_def list_ex_iff filter_empty_conv comp_def)
  next
    case ProductoIngrediente
    from assms have "distinct (map fst (tables d Productos))"
      and "distinct (map fst (tables d Ingredientes))"
      by (simp_all add: keys_distinct_def)
    from filter_key_eq_unique [OF this(1), of "member row ''producto_id''"]
      filter_key_eq_unique [OF this(2), of "member row ''ingrediente_id''"]
    show ?thesis using Pair ProductoIngrediente
      by (auto simp: member_def list_ex_iff filter_empty_conv comp_def)
  qed
qed

lemma map_concat_singletons:
  assumes "\<And>x. x \<in> set xs \<Longrightarrow> map f (proj x) = (if hp x then [g x] else [])"
  shows "map f (concat (map proj xs)) = map g (filter hp xs)"
  using assms by (induction xs) simp_all

lemma select_all_ids:
  assumes "keys_distinct d"
  shows "map (\<lambda>rw. member rw ''id'') (select_all d r) =
           map (\<lambda>p. Num (of_nat (fst p))) (filter (has_parents d r) (desc (tables d r)))"
  unfolding select_all_def
  by (rule map_concat_singletons) (rule project_ids [OF assms])

lemma desc_strictly_descending:
  assumes "distinct (map fst t)"
  shows "sorted_wrt (>) (map fst (desc t))"
proof -
  from assms have "distinct (map fst (sort_key fst t))"
    by (simp add: distinct_map)
  moreover have "sorted (map fst (sort_key fst t))"
    by (rule sorted_sort_key)
  ultimately have "sorted_wrt (<) (map fst (sort_key fst t))"
    by (simp add: strict_sorted_iff)
  then show ?thesis
    by (simp add: desc_def rev_map [symmetric] sorted_wrt_rev)
qed

text \<open>A stored row without its parents: no read shows it.\<close>

lemma select_by_id_orphan:
  assumes "keys_distinct d" and "p \<in> set (tables d r)" and "\<not> has_parents d r p"
    and "int_of_string s = Some (int (fst p))"
  shows "select_by_id d r (Str s) = []"
proof -
  have "project d r p' = []" if "p' \<in> set (filter (key_eq (Str s)) (tables d r))" for p'
  proof -
    from that have "p' \<in> set (tables d r)" and "fst p' = fst p"
      by (simp_all add: key_eq_path_id [OF assms(4)])
    with assms(1,2) have "p' = p"
      by (intro distinct_keys_same_row [OF keys_distinct_table])
    with assms(3) show ?thesis
      using project_nonempty [of d r p] by simp
  qed
  then show ?thesis
    by (simp add: select_by_id_def)
qed

lemma select_all_omits_orphan:
  assumes "keys_distinct d" and "p \<in> set (tables d r)" and "\<not> has_parents d r p"
  shows "Num (of_nat (fst p)) \<notin> (\<lambda>rw. member rw ''id'') ` set (select_all d r)"
proof
  assume "Num (of_nat (fst p)) \<in> (\<lambda>rw. member rw ''id'') ` set (select_all d r)"
  then have "Num (of_nat (fst p)) \<in> set (map (\<lambda>rw. member rw ''id'') (select_all d r))"
    by simp
  then obtain p' where "p' \<in> set (tables d r)" and "has_parents d r p'" and "fst p' = fst p"
    unfolding select_all_ids [OF assms(1)] by (auto simp: desc_def)
  moreover from this assms(1,2) have "p' = p"
    by (intro distinct_keys_same_row [OF keys_distinct_table])
  ultimately show False using assms(3) by simp
qed

text \<open>Under a primary key, the read by id yields at most one row.\<close>

lemma project_at_most_one:
  assumes "keys_distinct d"
  shows "length (project d r p) \<le> 1"
proof -
  have "length (project d r p) = length (map (\<lambda>rw. member rw ''id'') (project d r p))"
    by simp
  also have "\<dots> \<le> 1"
    unfolding project_ids [OF assms] by simp
  finally show ?thesis .
qed

lemma select_by_id_at_most_one:
  assumes "keys_distinct d"
  shows "length (select_by_id d r v) \<le> 1"
proof -
  from filter_key_eq_unique [OF keys_distinct_table [OF assms], of v r]
  show ?thesis
    using project_at_most_one [OF assms, of r]
    by (auto simp: select_by_id_def)
qed

lemma select_all_rows:
  "set (select_all d r) = (\<Union>p \<in> set (tables d r). set (project d r p))"
  by (simp add: select_all_def desc_def)

section \<open>Partial Update without a recognised field\<close>

text \<open>
  Claim C1. For every resource, a Partial Update whose body holds none of the resource's
  updatable fields (an empty body, or only unrecognised members) is answered with 400 and
  \<^verbatim>\<open>'Nada para actualizar'\<close>, and the handler state is the one it started in: the
  storage is untouched and no statement has been handed to the executor. This holds for
  every executor and every path id.
\<close>

theorem put_without_fields:
  assumes "\<forall>f \<in> set (columns r). member (body req) f = Undefined"
  shows "put_handler r env c req = (json 400 False nada NoData, c)"
proof -
  from assms have "present_fields r (body req) = []"
    by (simp add: present_fields_def filter_empty_conv)
  then show ?thesis by (simp add: put_handler_unfold)
qed

theorem put_without_fields_witness:
  "present_fields Productos (body put_unknown) = [] \<and>
   put_handler Productos mysql (start menu_db) put_unknown
     = (json 400 False nada NoData, start menu_db)"
proof -
  have h: "\<forall>f \<in> set (columns Productos). member (body put_unknown) f = Undefined"
    by (simp add: member_def put_unknown_def)
  from put_without_fields [OF h] h show ?thesis
    by (simp add: present_fields_def)
qed

section \<open>Booleans on the write paths\<close>

text \<open>
  The value a Partial Update binds for \<^verbatim>\<open>disponible\<close> or \<^verbatim>\<open>perecedero\<close>, and the
  value Create binds for \<^verbatim>\<open>perecedero\<close>, is 1 or 0.
\<close>

lemma boolean_written_as_number:
  "written_value Productos b ''disponible'' \<in> {Num 0, Num 1}"
  "written_value Ingredientes b ''perecedero'' \<in> {Num 0, Num 1}"
  "post_values Ingredientes b ! 1 \<in> {Num 0, Num 1}"
  by (simp_all add: written_value_def ingredientes_post_values_def)

text \<open>
  Claim C2 says every write path turns a boolean of the body into 0 or 1 before it is
  handed to the executor. Create for a product does not: with \<^verbatim>\<open>disponible: false\<close> in
  the body the fifth bind parameter of the INSERT is the boolean itself, where the
  Partial Update of the same field binds 0 and Create for an ingredient binds 0 for
  \<^verbatim>\<open>perecedero: false\<close>. On the reference storage the driver's rendering of the
  boolean still stores 0.
\<close>

theorem productos_post_binds_the_boolean:
  "post_values Productos (body post_cheeseburger) =
     [Num 1, Str ''Cheeseburger'', Null, Num (91 / 2), Bool False] \<and>
   issued (snd (post_handler Productos mysql (start menu_db) post_cheeseburger)) =
     [(INSERT_INTO Productos, [Num 1, Str ''Cheeseburger'', Null, Num (91 / 2), Bool False]),
      (SELECT_BY_ID Productos, [Num 3])] \<and>
   update_params Productos put_disponible = [Num 0, Str ''1''] \<and>
   post_values Ingredientes (body post_queso) = [Str ''Queso'', Num 0] \<and>
   member (snd (last (tables (store (snd (post_handler Productos mysql (start menu_db)
                                            post_cheeseburger))) Productos))) ''disponible''
     = Num 0"
proof -
  have v: "productos_post_values (body post_cheeseburger) =
             [Num 1, Str ''Cheeseburger'', Null, Num (91 / 2), Bool False]"
    by (simp add: productos_post_values_def post_cheeseburger_def member_def nullish_def)
  have h: "post_handler Productos mysql (start menu_db) post_cheeseburger =
             insert_and_reread Productos mysql (start menu_db)
               [Num 1, Str ''Cheeseburger'', Null, Num (91 / 2), Bool False]"
    by (simp add: post_handler_def v)
  have i: "issued (snd (post_handler Productos mysql (start menu_db) post_cheeseburger)) =
     [(INSERT_INTO Productos, [Num 1, Str ''Cheeseburger'', Null, Num (91 / 2), Bool False]),
      (SELECT_BY_ID Productos, [Num 3])]"
    unfolding h by (simp add: insert_and_reread_def pool_query_def storage_defs Let_def)
  have s: "member (snd (last (tables (store (snd (post_handler Productos mysql (start menu_db)
                                            post_cheeseburger))) Productos))) ''disponible''
     = Num 0"
    unfolding h by (simp add: insert_and_reread_def pool_query_def storage_defs Let_def)
  have u: "update_params Productos put_disponible = [Num 0, Str ''1'']"
    by (simp add: update_params_def present_fields_def written_value_def put_disponible_def
        member_def)
  have q: "post_values Ingredientes (body post_queso) = [Str ''Queso'', Num 0]"
    by (simp add: ingredientes_post_values_def post_queso_def member_def)
  from v i s u q show ?thesis by simp
qed

section \<open>Partial Update with a recognised field\<close>

text \<open>
  Claim C3. For every Partial Update with at least one recognised field present: the
  first statement handed to the executor is the UPDATE whose SET clause has one fragment
  for each recognised field present in the body, in the order of the column list, and no
  other; and on the reference storage the update leaves every row its key and, in every
  column that is not one of those fields (the refreshed \<^verbatim>\<open>updated_at\<close> apart), its
  prior value, and leaves the other tables as they were.
\<close>

theorem partial_update_sets_present_fields_only:
  assumes "present_fields r (body req) \<noteq> []"
  shows "(getPool env \<longrightarrow>
            (\<exists>rest. issued (snd (put_handler r env c req)) =
               issued c @ (UPDATE_SET r (map fragment (present_fields r (body req))),
                           update_params r req) # rest)) \<and>
         list_all2
           (\<lambda>old new. fst new = fst old \<and>
              (\<forall>col. col \<notin> set (present_fields r (body req)) \<and> col \<noteq> ''updated_at''
                 \<longrightarrow> member (snd new) col = member (snd old) col))
           (tables d r) (tables (store (snd (put_handler r mysql (start d) req))) r) \<and>
         (\<forall>t. t \<noteq> r \<longrightarrow> tables (store (snd (put_handler r mysql (start d) req))) t = tables d t)"
proof (intro conjI impI allI)
  assume "getPool env"
  with assms show "\<exists>rest. issued (snd (put_handler r env c req)) =
               issued c @ (UPDATE_SET r (map fragment (present_fields r (body req))),
                           update_params r req) # rest"
    by (simp add: put_handler_unfold update_and_reread_def pool_query_def update_params_def
        split: prod.splits option.splits)
next
  have frame: "member (assign (zip (present_fields r (body req))
                  (map bind (map (written_value r (body req)) (present_fields r (body req)))))
                  now row) col = member row col"
    if "col \<notin> set (present_fields r (body req)) \<and> col \<noteq> ''updated_at''" for now row col
    using that by (intro member_assign) (auto dest: set_zip_leftD)
  show "list_all2
           (\<lambda>old new. fst new = fst old \<and>
              (\<forall>col. col \<notin> set (present_fields r (body req)) \<and> col \<noteq> ''updated_at''
                 \<longrightarrow> member (snd new) col = member (snd old) col))
           (tables d r) (tables (store (snd (put_handler r mysql (start d) req))) r)"
    using frame
    by (simp add: put_handler_mysql_store [OF assms] list_all2_map2 list_all2_same)
next
  fix t assume "t \<noteq> r"
  then show "tables (store (snd (put_handler r mysql (start d) req))) t = tables d t"
    by (simp add: put_handler_mysql_store [OF assms])
qed

theorem partial_update_sets_present_fields_only_witness:
  "present_fields Productos (body put_disponible) = [''disponible''] \<and>
   (\<exists>rest. issued (snd (put_handler Productos mysql (start menu_db) put_disponible)) =
      issued (start menu_db) @
        (UPDATE_SET Productos [''disponible = ?''], [Num 0, Str ''1'']) # rest) \<and>
   list_all2
     (\<lambda>old new. fst new = fst old \<and>
        (\<forall>col. col \<notin> set (present_fields Productos (body put_disponible)) \<and>
               col \<noteq> ''updated_at''
           \<longrightarrow> member (snd new) col = member (snd old) col))
     (tables menu_db Productos)
     (tables (store (snd (put_handler Productos mysql (start menu_db) put_disponible)))
        Productos) \<and>
   tables (store (snd (put_handler Productos mysql (start menu_db) put_disponible))) Categorias
     = tables menu_db Categorias \<and>
   member (snd (hd (tables (store (snd (put_handler Productos mysql (start menu_db)
                                          put_disponible))) Productos))) ''disponible''
     = Num 0"
proof -
  have p: "present_fields Productos (body put_disponible) = [''disponible'']"
    by (simp add: present_fields_def put_disponible_def member_def)
  then have ne: "present_fields Productos (body put_disponible) \<noteq> []"
    by simp
  have g: "getPool mysql"
    by (simp add: mysql_def)
  have u: "update_params Productos put_disponible = [Num 0, Str ''1'']"
    by (simp add: update_params_def p written_value_def) (simp add: put_disponible_def member_def)
  note t = partial_update_sets_present_fields_only
             [OF ne, of mysql "start menu_db" menu_db]
  from t g have "\<exists>rest. issued (snd (put_handler Productos mysql (start menu_db) put_disponible)) =
      issued (start menu_db) @
        (UPDATE_SET Productos [''disponible = ?''], [Num 0, Str ''1'']) # rest"
    by (simp add: p u fragment_def)
  moreover from t have "list_all2
     (\<lambda>old new. fst new = fst old \<and>
        (\<forall>col. col \<notin> set (present_fields Productos (body put_disponible)) \<and>
               col \<noteq> ''updated_at''
           \<longrightarrow> member (snd new) col = member (snd old) col))
     (tables menu_db Productos)
     (tables (store (snd (put_handler Productos mysql (start menu_db) put_disponible)))
        Productos)"
    by blast
  moreover from t have
    "tables (store (snd (put_handler Productos mysql (start menu_db) put_disponible))) Categorias
       = tables menu_db Categorias"
    by simp
  moreover have
    "member (snd (hd (tables (store (snd (put_handler Productos mysql (start menu_db)
                                          put_disponible))) Productos))) ''disponible''
       = Num 0"
    unfolding put_handler_mysql_store [OF ne] p
    by (simp add: written_value_def put_disponible_def storage_defs)
  ultimately show ?thesis using p by blast
qed

section \<open>List\<close>

text \<open>
  Claim C4 says that List returns all rows of the table, by descending id. For products
  and relations the read is an inner join with the parent tables, so a stored row whose
  foreign key matches no parent is not returned: in the state below the products table
  holds one row and the list is empty.
\<close>

theorem list_of_all_rows_counterexample:
  "fst (get_all Productos mysql (start orphan_db)) = json 200 True consulta_ok (Many []) \<and>
   length (tables orphan_db Productos) = 1 \<and>
   keys_distinct orphan_db"
  by (simp add: get_all_def pool_query_def storage_defs keys_distinct_def)

text \<open>
  Claim C4, amended. For every resource and every state of the reference storage in which
  ids are unique, List answers 200 with one row for each stored row that has its parents
  (for categories and ingredients: for every stored row), in strictly descending order of
  id, each the projection of its stored row, having issued the one SELECT and left
  storage as it was; for an empty table the data is the empty array.
\<close>

theorem list_returns_joined_rows_by_descending_id:
  assumes "keys_distinct d"
  shows "get_all r mysql (start d) =
           (json 200 True consulta_ok (Many (select_all d r)),
            \<lparr>store = d, issued = [(SELECT_ALL r, [])]\<rparr>) \<and>
         set (select_all d r) = (\<Union>p \<in> set (tables d r). set (project d r p)) \<and>
         map (\<lambda>rw. member rw ''id'') (select_all d r) =
           map (\<lambda>p. Num (of_nat (fst p))) (filter (has_parents d r) (desc (tables d r))) \<and>
         sorted_wrt (>) (map fst (desc (tables d r))) \<and>
         set (desc (tables d r)) = set (tables d r) \<and>
         (r = Categorias \<or> r = Ingredientes \<longrightarrow>
            filter (has_parents d r) (desc (tables d r)) = desc (tables d r)) \<and>
         (tables d r = [] \<longrightarrow> select_all d r = [])"
proof (intro conjI impI)
  show "get_all r mysql (start d) =
           (json 200 True consulta_ok (Many (select_all d r)),
            \<lparr>store = d, issued = [(SELECT_ALL r, [])]\<rparr>)"
    by (rule get_all_mysql)
  show "set (select_all d r) = (\<Union>p \<in> set (tables d r). set (project d r p))"
    by (rule select_all_rows)
  show "map (\<lambda>rw. member rw ''id'') (select_all d r) =
           map (\<lambda>p. Num (of_nat (fst p))) (filter (has_parents d r) (desc (tables d r)))"
    by (rule select_all_ids [OF assms])
  show "sorted_wrt (>) (map fst (desc (tables d r)))"
    by (rule desc_strictly_descending [OF keys_distinct_table [OF assms]])
  show "set (desc (tables d r)) = set (tables d r)"
    by (simp add: desc_def)
  show "filter (has_parents d r) (desc (tables d r)) = desc (tables d r)"
    if "r = Categorias \<or> r = Ingredientes"
    using that by auto
  show "select_all d r = []" if "tables d r = []"
    using that by (simp add: select_all_def desc_def)
qed

theorem list_returns_joined_rows_by_descending_id_witness:
  "keys_distinct menu_db \<and>
   fst (get_all Productos mysql (start menu_db)) =
     json 200 True consulta_ok (Many (select_all menu_db Productos)) \<and>
   map (\<lambda>rw. member rw ''id'') (select_all menu_db Productos) = [Num 1] \<and>
   map fst (desc (tables menu_db Productos)) = [2, 1] \<and>
   sorted_wrt (>) (map fst (desc (tables menu_db Productos)))"
proof -
  have k: "keys_distinct menu_db"
    by (simp add: keys_distinct_def menu_db_def)
  note t = list_returns_joined_rows_by_descending_id [OF k, of Productos]
  have f: "map (\<lambda>p. Num (of_nat (fst p)))
             (filter (has_parents menu_db Productos) (desc (tables menu_db Productos)))
           = [Num 1]"
    by (simp add: storage_defs)
  have o: "map fst (desc (tables menu_db Productos)) = [2, 1]"
    by (simp add: storage_defs)
  from t have "fst (get_all Productos mysql (start menu_db)) =
                 json 200 True consulta_ok (Many (select_all menu_db Productos))"
    by simp
  moreover from t f have "map (\<lambda>rw. member rw ''id'') (select_all menu_db Productos) = [Num 1]"
    by simp
  moreover from t have "sorted_wrt (>) (map fst (desc (tables menu_db Productos)))"
    by blast
  ultimately show ?thesis using k o by blast
qed

section \<open>Affected-row counts\<close>

text \<open>
  Claim C5. For every resource and every path id: when the UPDATE of a Partial Update
  resolves with an affected-row count of 0 the answer is 404 not found; when the DELETE
  of a Delete resolves, the answer is 404 not found for a count of 0 and otherwise 200
  with the confirmation message and no data member.
\<close>

theorem zero_affected_rows_is_not_found:
  "(present_fields r (body req) \<noteq> [] \<and> getPool env \<and>
    query env (store c) (update_statement r req) (update_params r req) = (Some upd, s1) \<and>
    affectedRows upd = 0
      \<longrightarrow> fst (put_handler r env c req) = json 404 False (no_encontrado r) NoData) \<and>
   (getPool env \<and>
    query env (store c) (DELETE_FROM r) [Str (params_id req)] = (Some del, s2)
      \<longrightarrow> fst (delete_by_id r env c req) =
            (if affectedRows del = 0 then json 404 False (no_encontrado r) NoData
             else json 200 True (eliminado r) NoData))"
  by (simp add: put_handler_unfold update_and_reread_def delete_by_id_def pool_query_def
      update_statement_def update_params_def)

theorem zero_affected_rows_is_not_found_witness:
  "present_fields Productos (body put_absent) \<noteq> [] \<and> getPool mysql \<and>
   fst (query mysql (store (start menu_db)) (update_statement Productos put_absent)
          (update_params Productos put_absent)) = Some (header 0 0) \<and>
   fst (put_handler Productos mysql (start menu_db) put_absent)
     = json 404 False (no_encontrado Productos) NoData \<and>
   fst (query mysql (store (start menu_db)) (DELETE_FROM Productos) [Str ''7''])
     = Some (header 0 0) \<and>
   fst (delete_by_id Productos mysql (start menu_db) put_absent)
     = json 404 False (no_encontrado Productos) NoData \<and>
   fst (query mysql (store (start menu_db)) (DELETE_FROM Productos) [Str ''2''])
     = Some (header 1 0) \<and>
   fst (delete_by_id Productos mysql (start menu_db) (put_absent\<lparr>params_id := ''2''\<rparr>))
     = json 200 True (eliminado Productos) NoData"
proof -
  have p: "present_fields Productos (body put_absent) \<noteq> []"
    by (simp add: present_fields_def put_absent_def member_def)
  have g: "getPool mysql" by (simp add: mysql_def)
  have u: "fst (query mysql (store (start menu_db)) (update_statement Productos put_absent)
                 (update_params Productos put_absent)) = Some (header 0 0)"
    by (simp add: storage_defs update_statement_def update_params_def present_fields_def
        put_absent_def fragment_def written_value_def)
  have d7: "fst (query mysql (store (start menu_db)) (DELETE_FROM Productos) [Str ''7''])
              = Some (header 0 0)"
    by (simp add: storage_defs)
  have d2: "fst (query mysql (store (start menu_db)) (DELETE_FROM Productos) [Str ''2''])
              = Some (header 1 0)"
    by (simp add: storage_defs)
  have a0: "affectedRows (header 0 0) = 0" and a1: "affectedRows (header 1 0) \<noteq> 0"
    by (simp_all add: header_def)
  note t = zero_affected_rows_is_not_found
  have "fst (put_handler Productos mysql (start menu_db) put_absent)
          = json 404 False (no_encontrado Productos) NoData"
    using t [of Productos put_absent mysql "start menu_db" "header 0 0"
              "snd (query mysql (store (start menu_db)) (update_statement Productos put_absent)
                 (update_params Productos put_absent))"] p g u a0
    by (metis prod.collapse)
  moreover have "fst (delete_by_id Productos mysql (start menu_db) put_absent)
          = json 404 False (no_encontrado Productos) NoData"
    using t [of Productos put_absent mysql "start menu_db" _ _ "header 0 0"
              "snd (query mysql (store (start menu_db)) (DELETE_FROM Productos) [Str ''7''])"]
      g d7 a0
    by (simp add: put_absent_def) (metis prod.collapse)
  moreover have
    "fst (delete_by_id Productos mysql (start menu_db) (put_absent\<lparr>params_id := ''2''\<rparr>))
          = json 200 True (eliminado Productos) NoData"
    using t [of Productos "put_absent\<lparr>params_id := ''2''\<rparr>" mysql "start menu_db" _ _
              "header 1 0"
              "snd (query mysql (store (start menu_db)) (DELETE_FROM Productos) [Str ''2''])"]
      g d2 a1
    by (simp add: put_absent_def) (metis prod.collapse)
  ultimately show ?thesis using p g u d7 d2 by simp
qed

section \<open>Get-by-id\<close>

text \<open>
  Claim C6. For every resource and every path id, when the filtered projection query
  resolves: the answer is 404 not found exactly when the query yields zero rows, and
  otherwise it is 200 with the first row of the result, as the query projected it, as
  data. On the reference storage with unique ids the query yields at most one row, so
  that row is the only one.
\<close>

theorem get_by_id_outcome:
  assumes "getPool env"
    and "query env (store c) (SELECT_BY_ID r) [Str (params_id req)] = (Some sel, s1)"
  shows "(status (fst (get_by_id r env c req)) = 404 \<longleftrightarrow> rows sel = []) \<and>
         (rows sel = [] \<longrightarrow>
            fst (get_by_id r env c req) = json 404 False (no_encontrado r) NoData) \<and>
         (rows sel \<noteq> [] \<longrightarrow>
            fst (get_by_id r env c req) = json 200 True consulta_ok (Single (hd (rows sel)))) \<and>
         query mysql d (SELECT_BY_ID r) [v] = (Some (result_set (select_by_id d r v)), d) \<and>
         (keys_distinct d \<longrightarrow> length (select_by_id d r v) \<le> 1)"
proof -
  from assms
  have "(status (fst (get_by_id r env c req)) = 404 \<longleftrightarrow> rows sel = []) \<and>
         (rows sel = [] \<longrightarrow>
            fst (get_by_id r env c req) = json 404 False (no_encontrado r) NoData) \<and>
         (rows sel \<noteq> [] \<longrightarrow>
            fst (get_by_id r env c req) = json 200 True consulta_ok (Single (hd (rows sel))))"
    by (cases "rows sel") (simp_all add: get_by_id_def pool_query_def json_def first_row_def)
  moreover have "query mysql d (SELECT_BY_ID r) [v] = (Some (result_set (select_by_id d r v)), d)"
    by (simp add: mysql_def)
  moreover have "keys_distinct d \<longrightarrow> length (select_by_id d r v) \<le> 1"
    by (intro impI select_by_id_at_most_one)
  ultimately show ?thesis by blast
qed

theorem get_by_id_outcome_witness:
  "getPool mysql \<and>
   fst (query mysql (store (start menu_db)) (SELECT_BY_ID Productos) [Str (params_id get_one)])
     = Some (result_set (select_by_id menu_db Productos (Str ''1''))) \<and>
   fst (get_by_id Productos mysql (start menu_db) get_one)
     = json 200 True consulta_ok
         (Single [(''id'', Num 1), (''categoria_id'', Num 1), (''categoria'', Str ''Hamburguesas''),
                  (''nombre'', Str ''Cheeseburger''), (''descripcion'', Null),
                  (''precio'', Num (91 / 2)), (''disponible'', Num 1),
                  (''created_at'', Num 1), (''updated_at'', Num 1)])"
proof -
  have g: "getPool mysql" by (simp add: mysql_def)
  have q: "query mysql (store (start menu_db)) (SELECT_BY_ID Productos) [Str (params_id get_one)]
             = (Some (result_set (select_by_id menu_db Productos (Str ''1''))), menu_db)"
    by (simp add: mysql_def start_def get_one_def)
  have r: "rows (result_set (select_by_id menu_db Productos (Str ''1''))) =
             [[(''id'', Num 1), (''categoria_id'', Num 1), (''categoria'', Str ''Hamburguesas''),
               (''nombre'', Str ''Cheeseburger''), (''descripcion'', Null),
               (''precio'', Num (91 / 2)), (''disponible'', Num 1),
               (''created_at'', Num 1), (''updated_at'', Num 1)]]"
    by (simp add: storage_defs)
  from get_by_id_outcome [OF g q, of menu_db "Str ''1''"] g q r show ?thesis
    by (simp add: get_one_def start_def)
qed

section \<open>What Create and Partial Update answer with\<close>

text \<open>
  Claim C7. For every resource: when the INSERT of a Create and the re-read that follows
  it resolve, the answer is 201 with the first row of the re-read as data; when the UPDATE
  of a Partial Update resolves with a positive affected-row count and the re-read
  resolves, the answer is 200 with the first row of the re-read as data. In both the
  re-read is the statement Get-by-id issues, with the generated id or the path id as its
  parameter, so the data is what storage returns under that projection and not what the
  body held (and there is no data member when the re-read yields no row).
\<close>

theorem create_and_update_answer_with_reread_row:
  "(getPool env \<and>
    query env (store c) (INSERT_INTO r) (post_values r (body req)) = (Some ins, s1) \<and>
    query env s1 (SELECT_BY_ID r) [Num (of_nat (insertId ins))] = (Some sel, s2)
      \<longrightarrow> post_handler r env c req =
            (json 201 True (creado r) (first_row (rows sel)),
             \<lparr>store = s2,
              issued = issued c @ [(INSERT_INTO r, post_values r (body req)),
                                   (SELECT_BY_ID r, [Num (of_nat (insertId ins))])]\<rparr>)) \<and>
   (present_fields r (body req) \<noteq> [] \<and> getPool env \<and>
    query env (store c) (update_statement r req) (update_params r req) = (Some upd, s1) \<and>
    affectedRows upd \<noteq> 0 \<and>
    query env s1 (SELECT_BY_ID r) [Str (params_id req)] = (Some sel, s2)
      \<longrightarrow> put_handler r env c req =
            (json 200 True (actualizado r) (first_row (rows sel)),
             \<lparr>store = s2,
              issued = issued c @ [(update_statement r req, update_params r req),
                                   (SELECT_BY_ID r, [Str (params_id req)])]\<rparr>)) \<and>
   (getPool env \<and>
    query env (store c) (SELECT_BY_ID r) [Str (params_id req)] = (Some sel, s2) \<and>
    rows sel \<noteq> []
      \<longrightarrow> get_by_id r env c req =
            (json 200 True consulta_ok (first_row (rows sel)),
             \<lparr>store = s2, issued = issued c @ [(SELECT_BY_ID r, [Str (params_id req)])]\<rparr>))"
  by (simp add: post_handler_def insert_and_reread_def put_handler_unfold update_and_reread_def
      get_by_id_def pool_query_def update_statement_def update_params_def)

theorem create_and_update_answer_with_reread_row_witness:
  "fst (post_handler Productos mysql (start menu_db) post_papas) =
     json 201 True (creado Productos)
       (Single [(''id'', Num 3), (''categoria_id'', Num 1), (''categoria'', Str ''Hamburguesas''),
                (''nombre'', Str ''Papas''), (''descripcion'', Null), (''precio'', Num 15),
                (''disponible'', Num 1), (''created_at'', Num 3), (''updated_at'', Num 3)]) \<and>
   issued (snd (post_handler Productos mysql (start menu_db) post_papas)) =
     [(INSERT_INTO Productos, [Num 1, Str ''Papas'', Null, Num 15, Num 1]),
      (SELECT_BY_ID Productos, [Num 3])]"
proof -
  define s1 where
    "s1 = snd (mysql_query menu_db (INSERT_INTO Productos) (post_values Productos (body post_papas)))"
  have v: "post_values Productos (body post_papas) = [Num 1, Str ''Papas'', Null, Num 15, Num 1]"
    by (simp add: productos_post_values_def post_papas_def member_def nullish_def)
  have g: "getPool mysql"
    by (simp add: mysql_def)
  have i: "query mysql (store (start menu_db)) (INSERT_INTO Productos)
             (post_values Productos (body post_papas)) = (Some (header 1 3), s1)"
    unfolding s1_def v by (simp add: storage_defs Let_def)
  have q: "query mysql s1 (SELECT_BY_ID Productos) [Num (of_nat (insertId (header 1 3)))]
             = (Some (result_set (select_by_id s1 Productos (Num 3))), s1)"
    by (simp add: mysql_def header_def)
  have rw: "rows (result_set (select_by_id s1 Productos (Num 3))) =
              [[(''id'', Num 3), (''categoria_id'', Num 1), (''categoria'', Str ''Hamburguesas''),
                (''nombre'', Str ''Papas''), (''descripcion'', Null), (''precio'', Num 15),
                (''disponible'', Num 1), (''created_at'', Num 3), (''updated_at'', Num 3)]]"
    unfolding s1_def v by (simp add: storage_defs Let_def)
  have id3: "Num (of_nat (insertId (header 1 3))) = Num 3"
    by (simp add: header_def)
  from create_and_update_answer_with_reread_row
         [of mysql "start menu_db" Productos post_papas "header 1 3" s1
             "result_set (select_by_id s1 Productos (Num 3))" s1]
       g i q
  have "post_handler Productos mysql (start menu_db) post_papas =
          (json 201 True (creado Productos)
             (first_row (rows (result_set (select_by_id s1 Productos (Num 3))))),
           \<lparr>store = s1,
            issued = issued (start menu_db) @
              [(INSERT_INTO Productos, post_values Productos (body post_papas)),
               (SELECT_BY_ID Productos, [Num (of_nat (insertId (header 1 3)))])]\<rparr>)"
    by blast
  from this [unfolded v id3 rw] show ?thesis
    by (simp add: first_row_def start_def)
qed

section \<open>The quantity of a relation\<close>

text \<open>
  Claim C8. On the producto_ingrediente routes a \<^verbatim>\<open>cantidad_usada\<close> that is the number
  zero or a negative number fails validation, on Create and on Partial Update alike: the
  outcome is the validation failure naming the field, and the handler state is unchanged,
  so nothing reached storage. A strictly positive number passes the rule: when the other
  rules hold too, the route's outcome is the handler's.
\<close>

theorem cantidad_usada_must_be_positive:
  "(member (body req) ''cantidad_usada'' = Num q \<and> q \<le> 0 \<longrightarrow>
      (\<exists>errs. producto_ingrediente_post_route fv env c req = (Inl errs, c) \<and>
              ''cantidad_usada'' \<in> set errs) \<and>
      (\<exists>errs. producto_ingrediente_put_route fv env c req = (Inl errs, c) \<and>
              ''cantidad_usada'' \<in> set errs)) \<and>
   (member (body req) ''cantidad_usada'' = Num q \<and> 0 < q \<and>
    isInt (member (body req) ''producto_id'') \<and> isInt (member (body req) ''ingrediente_id'')
      \<longrightarrow> producto_ingrediente_post_route fv env c req =
            (Inr (fst (post_handler ProductoIngrediente env c req)),
             snd (post_handler ProductoIngrediente env c req))) \<and>
   (member (body req) ''cantidad_usada'' = Num q \<and> 0 < q \<and> isInt (Str (params_id req)) \<and>
    optional isInt (member (body req) ''producto_id'') \<and>
    optional isInt (member (body req) ''ingrediente_id'')
      \<longrightarrow> producto_ingrediente_put_route fv env c req =
            (Inr (fst (put_handler ProductoIngrediente env c req)),
             snd (put_handler ProductoIngrediente env c req)))"
  by (simp add: producto_ingrediente_post_route_def producto_ingrediente_put_route_def
      handleValidation_def producto_ingrediente_post_errors_def
      producto_ingrediente_put_errors_def check_def optional_def split: prod.splits
      del: put_handler.simps)

theorem cantidad_usada_must_be_positive_witness:
  "producto_ingrediente_post_route no_numeric_strings mysql (start menu_db) post_sin_cantidad
     = (Inl [''cantidad_usada''], start menu_db) \<and>
   http_status (fst (producto_ingrediente_post_route no_numeric_strings mysql (start menu_db)
                       post_sin_cantidad)) = 400 \<and>
   fst (producto_ingrediente_post_route no_numeric_strings mysql (start menu_db) post_un_cuarto)
     = Inr (json 201 True (creado ProductoIngrediente)
             (Single [(''id'', Num 3), (''producto_id'', Num 1), (''producto'', Str ''Cheeseburger''),
                      (''ingrediente_id'', Num 1), (''ingrediente'', Str ''Queso''),
                      (''cantidad_usada'', Num (1 / 4)),
                      (''created_at'', Num 3), (''updated_at'', Num 3)]))"
proof -
  note t = cantidad_usada_must_be_positive
  have z: "member (body post_sin_cantidad) ''cantidad_usada'' = Num 0 \<and> (0::rat) \<le> 0"
    by (simp add: post_sin_cantidad_def member_def)
  from t [of post_sin_cantidad 0 no_numeric_strings mysql "start menu_db"] z
  obtain errs where
    e: "producto_ingrediente_post_route no_numeric_strings mysql (start menu_db) post_sin_cantidad
          = (Inl errs, start menu_db)"
    by blast
  have "errs = [''cantidad_usada'']"
    using e
    by (simp add: producto_ingrediente_post_route_def handleValidation_def
        producto_ingrediente_post_errors_def check_def post_sin_cantidad_def member_def
        split: if_splits)
  with e have a: "producto_ingrediente_post_route no_numeric_strings mysql (start menu_db)
                    post_sin_cantidad = (Inl [''cantidad_usada''], start menu_db)"
    by simp
  have p: "member (body post_un_cuarto) ''cantidad_usada'' = Num (1 / 4) \<and> (0::rat) < 1 / 4 \<and>
           isInt (member (body post_un_cuarto) ''producto_id'') \<and>
           isInt (member (body post_un_cuarto) ''ingrediente_id'')"
    by (simp add: post_un_cuarto_def member_def)
  have h: "fst (post_handler ProductoIngrediente mysql (start menu_db) post_un_cuarto) =
             json 201 True (creado ProductoIngrediente)
               (Single [(''id'', Num 3), (''producto_id'', Num 1),
                        (''producto'', Str ''Cheeseburger''),
                        (''ingrediente_id'', Num 1), (''ingrediente'', Str ''Queso''),
                        (''cantidad_usada'', Num (1 / 4)),
                        (''created_at'', Num 3), (''updated_at'', Num 3)])"
    by (simp add: post_handler_def producto_ingrediente_post_values_def insert_and_reread_def
        pool_query_def post_un_cuarto_def storage_defs Let_def first_row_def)
  from t [of post_un_cuarto "1 / 4" no_numeric_strings mysql "start menu_db"] p
  have "fst (producto_ingrediente_post_route no_numeric_strings mysql (start menu_db)
               post_un_cuarto)
          = Inr (fst (post_handler ProductoIngrediente mysql (start menu_db) post_un_cuarto))"
    by simp
  with a h show ?thesis
    by (simp add: http_status_def)
qed

section \<open>Where the names in the SET clause come from\<close>

text \<open>
  Claim C9. For every Partial Update of every resource, whatever the body holds: a
  statement the handler hands to the executor is either the re-read or the UPDATE whose
  SET fragments are \<^verbatim>\<open>name = ?\<close> for the names of a non-empty subsequence of the
  resource's constant column list, namely those of its names that are defined in the
  body; the statement text is made of constant text and these names only. Two bodies that
  define the same names of the column list yield the same fragments, so no other key of
  the body reaches the text. For products the column list is \<^verbatim>\<open>allowedFields\<close>.
\<close>

theorem set_clause_names_come_from_the_column_list:
  "((q, ps) \<in> set (issued (snd (put_handler r env c req))) \<and> (q, ps) \<notin> set (issued c)
      \<longrightarrow> q = SELECT_BY_ID r \<or>
          (q = UPDATE_SET r (map fragment (present_fields r (body req))) \<and>
           present_fields r (body req) \<noteq> [] \<and>
           sql_text q =
             ''UPDATE '' @ table_name r @ '' SET '' @
             join '', '' (map (\<lambda>f. f @ '' = ?'') (present_fields r (body req))) @
             '' WHERE id = ?'')) \<and>
   subseq (present_fields r (body req)) (columns r) \<and>
   ((\<forall>f \<in> set (columns r). (member b f = Undefined) = (member (body req) f = Undefined))
      \<longrightarrow> present_fields r b = present_fields r (body req)) \<and>
   columns Productos = allowedFields"
proof (intro conjI impI)
  assume "(q, ps) \<in> set (issued (snd (put_handler r env c req))) \<and> (q, ps) \<notin> set (issued c)"
  then have "q = SELECT_BY_ID r \<or>
             (q = UPDATE_SET r (map fragment (present_fields r (body req))) \<and>
              present_fields r (body req) \<noteq> [])"
    by (auto simp: put_handler_unfold update_and_reread_def pool_query_def
        split: if_splits prod.splits option.splits)
  moreover have "map fragment fs = map (\<lambda>f. f @ '' = ?'') fs" for fs
    by (simp add: fragment_def)
  ultimately show "q = SELECT_BY_ID r \<or>
          (q = UPDATE_SET r (map fragment (present_fields r (body req))) \<and>
           present_fields r (body req) \<noteq> [] \<and>
           sql_text q =
             ''UPDATE '' @ table_name r @ '' SET '' @
             join '', '' (map (\<lambda>f. f @ '' = ?'') (present_fields r (body req))) @
             '' WHERE id = ?'')"
    by auto
next
  show "subseq (present_fields r (body req)) (columns r)"
    by (rule present_fields_subseq)
next
  assume "\<forall>f \<in> set (columns r). (member b f = Undefined) = (member (body req) f = Undefined)"
  then show "present_fields r b = present_fields r (body req)"
    unfolding present_fields_def by (intro filter_cong) auto
next
  show "columns Productos = allowedFields"
    by (simp add: allowedFields_def)
qed

theorem set_clause_names_come_from_the_column_list_witness:
  "issued (snd (put_handler Productos mysql (start menu_db) put_hostile)) =
     [(UPDATE_SET Productos [''precio = ?''], [Num 10, Str ''1'']),
      (SELECT_BY_ID Productos, [Str ''1''])] \<and>
   present_fields Productos (body put_hostile) = [''precio''] \<and>
   sql_text (UPDATE_SET Productos [''precio = ?'']) =
     ''UPDATE productos SET precio = ? WHERE id = ?''"
proof -
  have p: "present_fields Productos (body put_hostile) = [''precio'']"
    by (simp add: present_fields_def put_hostile_def member_def)
  have i: "issued (snd (put_handler Productos mysql (start menu_db) put_hostile)) =
     [(UPDATE_SET Productos [''precio = ?''], [Num 10, Str ''1'']),
      (SELECT_BY_ID Productos, [Str ''1''])]"
    unfolding put_handler_unfold p
    by (simp add: update_and_reread_def pool_query_def fragment_def written_value_def
        put_hostile_def storage_defs Let_def)
  have m: "(UPDATE_SET Productos [''precio = ?''], [Num 10, Str ''1''])
             \<in> set (issued (snd (put_handler Productos mysql (start menu_db) put_hostile))) \<and>
           (UPDATE_SET Productos [''precio = ?''], [Num 10, Str ''1''])
             \<notin> set (issued (start menu_db))"
    unfolding i by (simp add: start_def)
  from set_clause_names_come_from_the_column_list
         [of "UPDATE_SET Productos [''precio = ?'']" "[Num 10, Str ''1'']"
             Productos mysql "start menu_db" put_hostile] m
  have "sql_text (UPDATE_SET Productos [''precio = ?'']) =
          ''UPDATE '' @ table_name Productos @ '' SET '' @
          join '', '' (map (\<lambda>f. f @ '' = ?'') (present_fields Productos (body put_hostile))) @
          '' WHERE id = ?''"
    by blast
  then have "sql_text (UPDATE_SET Productos [''precio = ?'']) =
               ''UPDATE productos SET precio = ? WHERE id = ?''"
    by (simp add: p)
  with p show ?thesis unfolding i by simp
qed

section \<open>Rows whose parent is missing\<close>

text \<open>
  Claim C10. On the reference storage with unique ids, a stored row without a parent for
  one of the inner joins of its read projection (possible for products and relations
  only) does not appear in List, and Get-by-id with its id answers 404 although the row
  is stored. And for every executor: when the re-read after a resolved INSERT, or after
  an UPDATE that affected a row, resolves with zero rows, Create still answers 201 and
  Partial Update still answers 200, with \<^verbatim>\<open>ok: true\<close> and no data member.
\<close>

theorem orphan_rows_are_hidden_and_reread_may_be_empty:
  "(keys_distinct d \<and> p \<in> set (tables d r) \<and> \<not> has_parents d r p \<and>
    int_of_string (params_id req) = Some (int (fst p))
      \<longrightarrow> (\<exists>rs. fst (get_all r mysql (start d)) = json 200 True consulta_ok (Many rs) \<and>
                Num (of_nat (fst p)) \<notin> (\<lambda>rw. member rw ''id'') ` set rs) \<and>
          fst (get_by_id r mysql (start d) req) = json 404 False (no_encontrado r) NoData) \<and>
   (getPool env \<and>
    query env (store c) (INSERT_INTO r) (post_values r (body req)) = (Some ins, s1) \<and>
    query env s1 (SELECT_BY_ID r) [Num (of_nat (insertId ins))] = (Some sel, s2) \<and>
    rows sel = []
      \<longrightarrow> fst (post_handler r env c req) = json 201 True (creado r) NoData) \<and>
   (present_fields r (body req) \<noteq> [] \<and> getPool env \<and>
    query env (store c) (update_statement r req) (update_params r req) = (Some upd, s1) \<and>
    affectedRows upd \<noteq> 0 \<and>
    query env s1 (SELECT_BY_ID r) [Str (params_id req)] = (Some sel, s2) \<and>
    rows sel = []
      \<longrightarrow> fst (put_handler r env c req) = json 200 True (actualizado r) NoData)"
proof (intro conjI impI)
  assume a: "keys_distinct d \<and> p \<in> set (tables d r) \<and> \<not> has_parents d r p \<and>
             int_of_string (params_id req) = Some (int (fst p))"
  then have "Num (of_nat (fst p)) \<notin> (\<lambda>rw. member rw ''id'') ` set (select_all d r)"
    by (intro select_all_omits_orphan) simp_all
  then show "\<exists>rs. fst (get_all r mysql (start d)) = json 200 True consulta_ok (Many rs) \<and>
                Num (of_nat (fst p)) \<notin> (\<lambda>rw. member rw ''id'') ` set rs"
    unfolding get_all_mysql by (intro exI [of _ "select_all d r"]) simp
  from a have "select_by_id d r (Str (params_id req)) = []"
    by (intro select_by_id_orphan [of d p]) simp_all
  then show "fst (get_by_id r mysql (start d) req) = json 404 False (no_encontrado r) NoData"
    by (simp add: get_by_id_def pool_query_def mysql_def start_def result_set_def)
next
  assume "getPool env \<and>
    query env (store c) (INSERT_INTO r) (post_values r (body req)) = (Some ins, s1) \<and>
    query env s1 (SELECT_BY_ID r) [Num (of_nat (insertId ins))] = (Some sel, s2) \<and>
    rows sel = []"
  then show "fst (post_handler r env c req) = json 201 True (creado r) NoData"
    by (simp add: post_handler_def insert_and_reread_def pool_query_def first_row_def)
next
  assume "present_fields r (body req) \<noteq> [] \<and> getPool env \<and>
    query env (store c) (update_statement r req) (update_params r req) = (Some upd, s1) \<and>
    affectedRows upd \<noteq> 0 \<and>
    query env s1 (SELECT_BY_ID r) [Str (params_id req)] = (Some sel, s2) \<and>
    rows sel = []"
  then show "fst (put_handler r env c req) = json 200 True (actualizado r) NoData"
    by (simp add: put_handler_unfold update_and_reread_def pool_query_def first_row_def
        update_statement_def update_params_def)
qed

theorem orphan_rows_are_hidden_and_reread_may_be_empty_witness:
  "hd (tl (tables menu_db Productos)) \<in> set (tables menu_db Productos) \<and>
   fst (hd (tl (tables menu_db Productos))) = 2 \<and>
   fst (get_by_id Productos mysql (start menu_db) get_two)
     = json 404 False (no_encontrado Productos) NoData \<and>
   fst (post_handler Productos mysql (start menu_db) post_sopa)
     = json 201 True (creado Productos) NoData \<and>
   length (tables (store (snd (post_handler Productos mysql (start menu_db) post_sopa)))
             Productos) = 3 \<and>
   fst (put_handler Productos mysql (start menu_db) put_mudanza)
     = json 200 True (actualizado Productos) NoData"
proof -
  note t = orphan_rows_are_hidden_and_reread_may_be_empty
  define p where "p = hd (tl (tables menu_db Productos))"
  have k: "keys_distinct menu_db"
    by (simp add: keys_distinct_def menu_db_def)
  have m: "p \<in> set (tables menu_db Productos)" and f: "fst p = 2"
    by (simp_all add: p_def menu_db_def)
  have o: "\<not> has_parents menu_db Productos p"
    by (simp add: p_def storage_defs)
  have i: "int_of_string (params_id get_two) = Some (int (fst p))"
    by (simp add: f) (simp add: get_two_def int_of_string_def digit_def)
  from t [where d = menu_db and p = p and r = Productos and req = get_two, THEN conjunct1]
    k m o i
  have g: "fst (get_by_id Productos mysql (start menu_db) get_two)
             = json 404 False (no_encontrado Productos) NoData"
    by blast
  have v: "productos_post_values (body post_sopa) = [Num 9, Str ''Sopa'', Null, Num 30, Num 1]"
    by (simp add: productos_post_values_def post_sopa_def member_def nullish_def)
  have h: "post_handler Productos mysql (start menu_db) post_sopa =
             insert_and_reread Productos mysql (start menu_db)
               [Num 9, Str ''Sopa'', Null, Num 30, Num 1]"
    by (simp add: post_handler_def v)
  have c: "fst (post_handler Productos mysql (start menu_db) post_sopa)
             = json 201 True (creado Productos) NoData"
    unfolding h
    by (simp add: insert_and_reread_def pool_query_def storage_defs Let_def first_row_def)
  have n: "length (tables (store (snd (post_handler Productos mysql (start menu_db) post_sopa)))
             Productos) = 3"
    unfolding h
    by (simp add: insert_and_reread_def pool_query_def storage_defs Let_def first_row_def)
  have pf: "present_fields Productos (body put_mudanza) = [''categoria_id'']"
    by (simp add: present_fields_def put_mudanza_def member_def)
  have u: "fst (put_handler Productos mysql (start menu_db) put_mudanza)
             = json 200 True (actualizado Productos) NoData"
    unfolding put_handler_unfold pf
    by (simp add: update_and_reread_def pool_query_def fragment_def written_value_def
        put_mudanza_def storage_defs Let_def first_row_def)
  from g c n u m f show ?thesis
    unfolding p_def by simp
qed

end
